theory Spec2Isabelle
  imports
    Complex_Main
    "HOL-Library.Multiset"
    "HOL-Library.Sublist"
    "HOL-Library.Char_ord"
    "HOL-Library.List_Lexorder"
    "HOL-Library.Product_Lexorder"
begin

section \<open>The seller dashboard (app.py): data frames\<close>

text \<open>
  The program is a script over pandas data frames. A frame is modelled by its column
  labels and its rows; a row maps a column label to a cell, and a row is only ever read
  at a label of the frame (an access to any other label is the \<open>KeyError\<close> branch).

  A cell is what \<open>pd.read_csv\<close> leaves in a frame: a missing value (\<open>NaN\<close>), a text, or
  a number. A number is the real value of the float64 or int64 in the cell; infinities are
  left out. What the library computes from numbers with rounding or wrap-around, its sums
  and means, and the order its sort gives to equal keys, are parameters of the functions
  that use them.
\<close>

datatype cell = NaN | Str string | is_Num: Num real

type_synonym row = "string \<Rightarrow> cell"

record frame =
  columns :: "string list"
  rows :: "row list"

datatype error = FileNotFoundError | KeyError string | ValueError | OtherException string

text \<open>\<open>pd.DataFrame()\<close>: no columns, no rows.\<close>

definition DataFrame :: frame where
  "DataFrame = \<lparr>columns = [], rows = []\<rparr>"

text \<open>\<open>df.empty\<close>: one of the two axes has length zero.\<close>

definition empty :: "frame \<Rightarrow> bool" where
  "empty df \<longleftrightarrow> columns df = [] \<or> rows df = []"

text \<open>\<open>df[name]\<close> reads a column as a series, or raises \<open>KeyError\<close>.\<close>

definition getitem :: "frame \<Rightarrow> string \<Rightarrow> error + cell list" where
  "getitem df name =
     (if name \<in> set (columns df) then Inr (map (\<lambda>r. r name) (rows df))
      else Inl (KeyError name))"

text \<open>
  \<open>df[name] = series\<close> overwrites the column, or appends it when the label is new. The
  series has the frame's own index, so it is as long as the frame.
\<close>

definition setitem :: "frame \<Rightarrow> string \<Rightarrow> cell list \<Rightarrow> frame" where
  "setitem df name series =
     \<lparr>columns = (if name \<in> set (columns df) then columns df else columns df @ [name]),
      rows = map2 (\<lambda>r c. r(name := c)) (rows df) series\<rparr>"

definition bind :: "error + 'a \<Rightarrow> ('a \<Rightarrow> error + 'b) \<Rightarrow> error + 'b" where
  "bind m f = (case m of Inl e \<Rightarrow> Inl e | Inr x \<Rightarrow> f x)"

section \<open>load_data (lines 19 to 46)\<close>

definition VENDEDORES_FILE :: string where
  "VENDEDORES_FILE = ''vendedores.csv''"

text \<open>
  \<open>pd.to_numeric(series, errors='coerce')\<close>, cell by cell. The parser pandas applies to
  a text is a parameter \<open>parse\<close>; a text it rejects becomes \<open>NaN\<close> and nothing is raised.
\<close>

definition to_numeric :: "(string \<Rightarrow> real option) \<Rightarrow> cell \<Rightarrow> cell" where
  "to_numeric parse c =
     (case c of
        NaN \<Rightarrow> NaN
      | Num x \<Rightarrow> Num x
      | Str s \<Rightarrow> (case parse s of None \<Rightarrow> NaN | Some x \<Rightarrow> Num x))"

text \<open>
  \<open>series.astype(str)\<close>, cell by cell, for the object and float columns of pandas before
  version 3: a missing value becomes the text \<open>nan\<close>. How Python prints a number is a
  parameter \<open>str_num\<close>.
\<close>

definition astype_str :: "(real \<Rightarrow> string) \<Rightarrow> cell \<Rightarrow> string" where
  "astype_str str_num c = (case c of NaN \<Rightarrow> ''nan'' | Str s \<Rightarrow> s | Num x \<Rightarrow> str_num x)"

text \<open>Lines 29 to 32: \<open>df[name] = pd.to_numeric(df[name], errors='coerce')\<close>.\<close>

definition coerce_column :: "(string \<Rightarrow> real option) \<Rightarrow> string \<Rightarrow> frame \<Rightarrow> error + frame" where
  "coerce_column parse name df =
     bind (getitem df name) (\<lambda>s. Inr (setitem df name (map (to_numeric parse) s)))"

text \<open>Line 35: \<open>df['VENDEDOR'] = df['NOMBRE'].astype(str) + ' ' + df['APELLIDO'].astype(str)\<close>.\<close>

definition add_vendedor :: "(real \<Rightarrow> string) \<Rightarrow> frame \<Rightarrow> error + frame" where
  "add_vendedor str_num df =
     bind (getitem df ''NOMBRE'') (\<lambda>nombre.
     bind (getitem df ''APELLIDO'') (\<lambda>apellido.
       Inr (setitem df ''VENDEDOR''
              (map2 (\<lambda>n a. Str (astype_str str_num n @ '' '' @ astype_str str_num a))
                 nombre apellido))))"

text \<open>\<open>df.dropna(subset=..., inplace=True)\<close>: a row goes when one of the cells is missing.\<close>

definition dropna :: "string list \<Rightarrow> frame \<Rightarrow> error + frame" where
  "dropna labels df =
     (case filter (\<lambda>c. c \<notin> set (columns df)) labels of
        c # _ \<Rightarrow> Inl (KeyError c)
      | [] \<Rightarrow> Inr (df\<lparr>rows := filter (\<lambda>r. \<forall>c \<in> set labels. r c \<noteq> NaN) (rows df)\<rparr>))"

text \<open>The body of the \<open>try\<close>, from the frame that line 26 has relabelled.\<close>

definition try_body :: "(string \<Rightarrow> real option) \<Rightarrow> (real \<Rightarrow> string) \<Rightarrow> frame \<Rightarrow> error + frame" where
  "try_body parse str_num df =
     bind (coerce_column parse ''UNIDADES_VENDIDAS'' df) (\<lambda>df.
     bind (coerce_column parse ''VENTAS_TOTALES'' df) (\<lambda>df.
     bind (coerce_column parse ''PORCENTAJE_DE_VENTAS'' df) (\<lambda>df.
     bind (coerce_column parse ''SALARIO'' df) (\<lambda>df.
     bind (add_vendedor str_num df) (\<lambda>df.
       dropna [''UNIDADES_VENDIDAS'', ''VENTAS_TOTALES'', ''PORCENTAJE_DE_VENTAS''] df)))))"

text \<open>What \<open>st.error\<close> is called with: one constructor for each of the two messages.\<close>

datatype st_error = FileMissing string | LoadError error

text \<open>
  \<open>load_data\<close>. Its input \<open>csv\<close> is the outcome of lines 23 and 26, reading the file and
  relabelling the columns: an exception, or the relabelled frame. The result is the message
  given to \<open>st.error\<close>, if any, and the returned frame. The cache of line 18 is left out.
\<close>

definition load_data ::
  "(string \<Rightarrow> real option) \<Rightarrow> (real \<Rightarrow> string) \<Rightarrow> error + frame \<Rightarrow> st_error option \<times> frame" where
  "load_data parse str_num csv =
     (case bind csv (try_body parse str_num) of
        Inr df \<Rightarrow> (None, df)
      | Inl FileNotFoundError \<Rightarrow> (Some (FileMissing VENDEDORES_FILE), DataFrame)
      | Inl e \<Rightarrow> (Some (LoadError e), DataFrame))"

text \<open>Lines 51 and 216: the page is the dashboard or the message that nothing was loaded.\<close>

datatype page = Dashboard frame | LoadFailed

definition main_page :: "frame \<Rightarrow> page" where
  "main_page df = (if \<not> empty df then Dashboard df else LoadFailed)"

text \<open>The row-wise reading of lines 29 to 35, against which the column operations are checked.\<close>

definition clean_row :: "(string \<Rightarrow> real option) \<Rightarrow> (real \<Rightarrow> string) \<Rightarrow> row \<Rightarrow> row" where
  "clean_row parse str_num r =
     (let r1 = r(''UNIDADES_VENDIDAS'' := to_numeric parse (r ''UNIDADES_VENDIDAS''),
                 ''VENTAS_TOTALES'' := to_numeric parse (r ''VENTAS_TOTALES''),
                 ''PORCENTAJE_DE_VENTAS'' := to_numeric parse (r ''PORCENTAJE_DE_VENTAS''),
                 ''SALARIO'' := to_numeric parse (r ''SALARIO''))
      in r1(''VENDEDOR'' :=
              Str (astype_str str_num (r1 ''NOMBRE'') @ '' '' @ astype_str str_num (r1 ''APELLIDO''))))"

definition metrics_coerce :: "(string \<Rightarrow> real option) \<Rightarrow> row \<Rightarrow> bool" where
  "metrics_coerce parse r \<longleftrightarrow>
     to_numeric parse (r ''UNIDADES_VENDIDAS'') \<noteq> NaN \<and>
     to_numeric parse (r ''VENTAS_TOTALES'') \<noteq> NaN \<and>
     to_numeric parse (r ''PORCENTAJE_DE_VENTAS'') \<noteq> NaN"

definition required_columns :: "string list" where
  "required_columns =
     [''UNIDADES_VENDIDAS'', ''VENTAS_TOTALES'', ''PORCENTAJE_DE_VENTAS'', ''SALARIO'',
      ''NOMBRE'', ''APELLIDO'']"

section \<open>The dashboard (lines 59 to 142)\<close>

subsection \<open>The region filter (lines 67 to 70)\<close>

text \<open>
  \<open>series.isin(values)\<close> for a list of texts, as the multiselect of line 60 returns for a
  column of region names: a number and a missing value are not among them.
\<close>

definition isin :: "cell \<Rightarrow> string list \<Rightarrow> bool" where
  "isin c vals = (case c of Str s \<Rightarrow> s \<in> set vals | _ \<Rightarrow> False)"

text \<open>\<open>df[mask]\<close>: the rows at which the boolean series holds, in the frame's order.\<close>

definition mask_rows :: "frame \<Rightarrow> bool list \<Rightarrow> frame" where
  "mask_rows df bs = df\<lparr>rows := map fst (filter snd (zip (rows df) bs))\<rparr>"

definition df_filtered_region :: "frame \<Rightarrow> string list \<Rightarrow> error + frame" where
  "df_filtered_region df selected_regions =
     (if ''TODAS'' \<in> set selected_regions then Inr df
      else bind (getitem df ''REGION'') (\<lambda>region.
             Inr (mask_rows df (map (\<lambda>c. isin c selected_regions) region))))"

subsection \<open>Number formats\<close>

text \<open>
  \<open>format(x, ',.0f')\<close>: the nearest integer, a tie going to the even one, its digits in
  groups of three, and a minus sign for a negative \<open>x\<close> even when it rounds to zero.
\<close>

definition round_half_even :: "real \<Rightarrow> int" where
  "round_half_even x =
     (let f = \<lfloor>x\<rfloor>; d = x - of_int f
      in if d < 1 / 2 then f else if 1 / 2 < d then f + 1 else if even f then f else f + 1)"

fun digits :: "nat \<Rightarrow> string" where
  "digits n =
     (if n < 10 then [''0123456789'' ! n]
      else digits (n div 10) @ [''0123456789'' ! (n mod 10)])"

declare digits.simps [simp del]

fun group3 :: "string \<Rightarrow> string" where
  "group3 (a # b # c # d # rest) = a # b # c # CHR '','' # group3 (d # rest)"
| "group3 ds = ds"

definition format_0f :: "real \<Rightarrow> string" where
  "format_0f x =
     (if x < 0 then ''-'' else []) @ rev (group3 (rev (digits (nat \<bar>round_half_even x\<bar>))))"

text \<open>The f-string \<open>f"${x:,.0f}"\<close> of lines 99 and 111.\<close>

definition usd :: "real \<Rightarrow> string" where
  "usd x = ''$'' @ format_0f x"

subsection \<open>Series reductions\<close>

text \<open>
  The numbers of a series, the missing values skipped as \<open>sum\<close>, \<open>mean\<close> and \<open>idxmax\<close>
  skip them. The reductions run on columns that \<open>pd.to_numeric\<close> has produced, which
  hold no text; the equation for a text only makes the function total.
\<close>

fun valid :: "cell list \<Rightarrow> real list" where
  "valid [] = []"
| "valid (Num x # cs) = x # valid cs"
| "valid (c # cs) = valid cs"

text \<open>
  \<open>sum\<close> and \<open>mean\<close> add the numbers of a column in the arithmetic of its dtype, float64
  with its rounding or int64 with its wrap-around, in the order of the rows. What the
  library returns for a list of numbers is a parameter (\<open>add\<close>, \<open>avg\<close>) and no exact
  sum. With no number to add, the sum is zero and the mean is missing.
\<close>

definition series_sum :: "(real list \<Rightarrow> real) \<Rightarrow> cell list \<Rightarrow> real" where
  "series_sum add cs = (if valid cs = [] then 0 else add (valid cs))"

definition series_mean :: "(real list \<Rightarrow> real) \<Rightarrow> cell list \<Rightarrow> cell" where
  "series_mean avg cs = (if valid cs = [] then NaN else Num (avg (valid cs)))"

definition nunique :: "cell list \<Rightarrow> nat" where
  "nunique cs = length (remdups (filter (\<lambda>c. c \<noteq> NaN) cs))"

text \<open>
  \<open>df.loc[series.idxmax()]\<close>: the first row at which the series is largest, with its
  value. There is none when the series holds no number.
\<close>

fun idxmax_row :: "(row \<times> cell) list \<Rightarrow> (row \<times> real) option" where
  "idxmax_row [] = None"
| "idxmax_row ((r, Num x) # rest) =
     (case idxmax_row rest of
        None \<Rightarrow> Some (r, x)
      | Some (r', y) \<Rightarrow> if x < y then Some (r', y) else Some (r, x))"
| "idxmax_row (_ # rest) = idxmax_row rest"

subsection \<open>The summary metrics (lines 91 to 114)\<close>

text \<open>
  What the three \<open>st.metric\<close> calls are given, and \<open>num_vendedores\<close>, which line 93
  computes and nothing displays. \<open>column_sum name\<close> is the sum that \<open>Series.sum\<close> returns for
  the numbers of the column \<open>name\<close>. The f-string \<open>f"{x:,}"\<close> of line 102 prints an int64
  sum and a float64 sum differently and is a parameter \<open>grouped\<close>.
\<close>

record metrics =
  total_ventas :: string
  total_unidades :: string
  num_vendedores :: nat
  max_sales_value :: cell
  max_sales_delta :: string

definition max_sales_metric :: "frame \<Rightarrow> error + cell \<times> string" where
  "max_sales_metric view =
     (if \<not> empty view then
        bind (getitem view ''VENTAS_TOTALES'') (\<lambda>ventas.
          case idxmax_row (zip (rows view) ventas) of
            None \<Rightarrow> Inl ValueError
          | Some (max_sales_row, x) \<Rightarrow>
              bind (getitem view ''VENDEDOR'') (\<lambda>_.
                Inr (max_sales_row ''VENDEDOR'', usd x)))
      else Inr (Str ''N/A'', ''N/A''))"

definition summary_metrics ::
  "(string \<Rightarrow> real list \<Rightarrow> real) \<Rightarrow> (real \<Rightarrow> string) \<Rightarrow> frame \<Rightarrow> error + metrics" where
  "summary_metrics column_sum grouped view =
     bind (getitem view ''VENTAS_TOTALES'') (\<lambda>ventas.
     bind (getitem view ''UNIDADES_VENDIDAS'') (\<lambda>unidades.
     bind (getitem view ''ID'') (\<lambda>ids.
     bind (max_sales_metric view) (\<lambda>(v, d).
       Inr \<lparr>total_ventas = usd (series_sum (column_sum ''VENTAS_TOTALES'') ventas),
            total_unidades = grouped (series_sum (column_sum ''UNIDADES_VENDIDAS'') unidades),
            num_vendedores = nunique ids,
            max_sales_value = v,
            max_sales_delta = d\<rparr>))))"

subsection \<open>The totals by region (lines 120 to 124)\<close>

text \<open>
  \<open>groupby('REGION')\<close> leaves out the rows with no region and orders the groups by
  their key: numbers first, then texts, each in ascending order.
\<close>

definition cell_key :: "cell \<Rightarrow> nat \<times> real \<times> string" where
  "cell_key c = (case c of Num x \<Rightarrow> (0, x, []) | Str s \<Rightarrow> (1, 0, s) | NaN \<Rightarrow> (2, 0, []))"

definition group_keys :: "cell list \<Rightarrow> cell list" where
  "group_keys region = sort_key cell_key (remdups (filter (\<lambda>c. c \<noteq> NaN) region))"

text \<open>The cells of a series at the rows of the group \<open>k\<close>, in the order of the rows.\<close>

definition group_of :: "cell \<Rightarrow> cell list \<Rightarrow> cell list \<Rightarrow> cell list" where
  "group_of k region series = map snd (filter (\<lambda>(k', c). k' = k) (zip region series))"

record region_totals =
  REGION :: cell
  Total_Unidades :: real
  Total_Ventas :: real
  Promedio_Porcentaje :: cell

text \<open>
  \<open>group_sum name\<close> and \<open>group_mean name\<close> are what the aggregations \<open>'sum'\<close> and
  \<open>'mean'\<close> of the library return for the numbers that a group has in the column \<open>name\<close>.
\<close>

definition df_grouped_region ::
  "(string \<Rightarrow> real list \<Rightarrow> real) \<Rightarrow> (string \<Rightarrow> real list \<Rightarrow> real) \<Rightarrow> frame \<Rightarrow>
     error + region_totals list" where
  "df_grouped_region group_sum group_mean view =
     bind (getitem view ''REGION'') (\<lambda>region.
     bind (getitem view ''UNIDADES_VENDIDAS'') (\<lambda>unidades.
     bind (getitem view ''VENTAS_TOTALES'') (\<lambda>ventas.
     bind (getitem view ''PORCENTAJE_DE_VENTAS'') (\<lambda>porcentaje.
       Inr (map (\<lambda>k.
              \<lparr>REGION = k,
               Total_Unidades =
                 series_sum (group_sum ''UNIDADES_VENDIDAS'') (group_of k region unidades),
               Total_Ventas =
                 series_sum (group_sum ''VENTAS_TOTALES'') (group_of k region ventas),
               Promedio_Porcentaje =
                 series_mean (group_mean ''PORCENTAJE_DE_VENTAS'') (group_of k region porcentaje)\<rparr>)
              (group_keys region))))))"

subsection \<open>The top sellers (line 142)\<close>

text \<open>
  \<open>df.sort_values(by=name, ascending=False)\<close>. pandas takes the positions of the rows
  that hold a number, in reverse for a descending sort, sorts their keys in ascending order
  with \<open>argsort\<close> of numpy, reverses the positions it gets, and puts the rows with no
  number last. \<open>argsort\<close> is a parameter: the default kind is \<open>quicksort\<close>, which puts equal
  keys in an order of its own. It returns positions of the list it is given.
\<close>

definition key_num :: "cell \<Rightarrow> real" where
  "key_num c = (case c of Num x \<Rightarrow> x | _ \<Rightarrow> 0)"

definition sort_values_desc :: "(real list \<Rightarrow> nat list) \<Rightarrow> string \<Rightarrow> frame \<Rightarrow> error + frame" where
  "sort_values_desc argsort name df =
     bind (getitem df name) (\<lambda>keys.
       let idx = [0..<length keys];
           non_nan_idx = rev (filter (\<lambda>i. is_Num (keys ! i)) idx);
           nan_idx = filter (\<lambda>i. \<not> is_Num (keys ! i)) idx;
           non_nans = map (\<lambda>i. key_num (keys ! i)) non_nan_idx;
           indexer = rev (map (\<lambda>j. non_nan_idx ! j) (argsort non_nans)) @ nan_idx
       in Inr (df\<lparr>rows := map (\<lambda>i. rows df ! i) indexer\<rparr>))"

definition head :: "nat \<Rightarrow> frame \<Rightarrow> frame" where
  "head n df = df\<lparr>rows := take n (rows df)\<rparr>"

definition top_n :: "(real list \<Rightarrow> nat list) \<Rightarrow> nat \<Rightarrow> string \<Rightarrow> frame \<Rightarrow> error + frame" where
  "top_n argsort n name view =
     bind (sort_values_desc argsort name view) (\<lambda>sorted_view. Inr (head n sorted_view))"

definition df_top_sellers :: "(real list \<Rightarrow> nat list) \<Rightarrow> frame \<Rightarrow> error + frame" where
  "df_top_sellers argsort view = top_n argsort 10 ''PORCENTAJE_DE_VENTAS'' view"

subsection \<open>The arithmetic of float64\<close>

text \<open>
  The float64 nearest to a real, a tie going to the even significand: 53 significant
  bits, for the numbers in the normal range (overflow and subnormal numbers are left out).
\<close>

definition f64 :: "real \<Rightarrow> real" where
  "f64 x =
     (if x = 0 then 0
      else let ulp = 2 powr (of_int \<lfloor>log 2 \<bar>x\<bar>\<rfloor> - 52)
           in of_int (round_half_even (x / ulp)) * ulp)"

text \<open>
  The aggregation \<open>'sum'\<close> of \<open>groupby\<close> on a float64 column is a compensated sum over the
  rows of the group, in their order: every operation is rounded, and the error of an
  addition is carried to the next one. The aggregation \<open>'mean'\<close> divides such a sum by the
  number of values.
\<close>

fun kahan :: "real \<Rightarrow> real \<Rightarrow> real list \<Rightarrow> real" where
  "kahan sumx compensation [] = sumx"
| "kahan sumx compensation (val # vals) =
     (let y = f64 (val - compensation);
          t = f64 (sumx + y)
      in kahan t (f64 (f64 (t - sumx) - y)) vals)"

definition group_sum_f64 :: "real list \<Rightarrow> real" where
  "group_sum_f64 vals = kahan 0 0 vals"

definition group_mean_f64 :: "real list \<Rightarrow> real" where
  "group_mean_f64 vals = f64 (kahan 0 0 vals / real (length vals))"

section \<open>The statements of the specification, and an example\<close>

text \<open>The labels of a loaded frame: those of the file, and \<open>VENDEDOR\<close>.\<close>

definition loaded_columns :: "string list \<Rightarrow> string list" where
  "loaded_columns cs = (if ''VENDEDOR'' \<in> set cs then cs else cs @ [''VENDEDOR''])"

text \<open>A column holds a number in every row, as the three metric columns do after loading.\<close>

definition numeric_column :: "string \<Rightarrow> frame \<Rightarrow> bool" where
  "numeric_column name df \<longleftrightarrow> name \<in> set (columns df) \<and> list_all (\<lambda>r. is_Num (r name)) (rows df)"

text \<open>
  The full name as the specification words it, with both parts trimmed as \<open>str.strip\<close>
  trims them.
\<close>

definition is_space :: "char \<Rightarrow> bool" where
  "is_space c \<longleftrightarrow> c \<in> set [CHR '' '', CHR 0x09, CHR 0x0A, CHR 0x0B, CHR 0x0C, CHR 0x0D]"

definition strip :: "string \<Rightarrow> string" where
  "strip s = rev (dropWhile is_space (rev (dropWhile is_space s)))"

definition spec_full_name :: "(real \<Rightarrow> string) \<Rightarrow> row \<Rightarrow> cell" where
  "spec_full_name str_num r =
     Str (strip (astype_str str_num (r ''NOMBRE'')) @ '' '' @
          strip (astype_str str_num (r ''APELLIDO'')))"

text \<open>The ranges the specification gives to the fields of a record.\<close>

definition nonneg :: "cell \<Rightarrow> bool" where
  "nonneg c = (case c of Num x \<Rightarrow> 0 \<le> x | _ \<Rightarrow> True)"

definition spec_ranges :: "row \<Rightarrow> bool" where
  "spec_ranges r \<longleftrightarrow>
     (case r ''PORCENTAJE_DE_VENTAS'' of Num p \<Rightarrow> 0 \<le> p \<and> p \<le> 1 | _ \<Rightarrow> True) \<and>
     nonneg (r ''SALARIO'') \<and> nonneg (r ''UNIDADES_VENDIDAS'') \<and> nonneg (r ''VENTAS_TOTALES'')"

text \<open>
  A file of four sellers. The columns of units and salaries hold a text that is no number,
  so pandas reads both as texts; \<open>example_parse\<close> is the number parser on the texts of
  this file. No name is a number, so \<open>example_str\<close> is never applied.
\<close>

definition seller :: "cell \<Rightarrow> cell \<Rightarrow> cell \<Rightarrow> cell \<Rightarrow> cell \<Rightarrow> cell \<Rightarrow> cell \<Rightarrow> cell \<Rightarrow> row" where
  "seller i n a reg sal u v p =
     (\<lambda>_. NaN)(''ID'' := i, ''NOMBRE'' := n, ''APELLIDO'' := a, ''REGION'' := reg,
                ''SALARIO'' := sal, ''UNIDADES_VENDIDAS'' := u, ''VENTAS_TOTALES'' := v,
                ''PORCENTAJE_DE_VENTAS'' := p)"

definition example_csv :: frame where
  "example_csv =
     \<lparr>columns = [''ID'', ''NOMBRE'', ''APELLIDO'', ''REGION'', ''SALARIO'',
                 ''UNIDADES_VENDIDAS'', ''VENTAS_TOTALES'', ''PORCENTAJE_DE_VENTAS''],
      rows =
        [seller (Num 1) (Str ''Ana '') (Str ''Lopez'') (Str ''North'') (Str ''n/d'')
           (Str ''10'') (Num 100) (Num (1 / 4)),
         seller (Num 2) NaN (Str ''Ruiz'') (Str ''North'') (Str ''900'')
           (Str ''20'') (Num 200) (Num (3 / 2)),
         seller (Num 3) (Str ''Luis'') (Str ''Mora'') (Str ''South'') (Str ''-1'')
           (Str ''5'') (Num 50) (Num (1 / 10)),
         seller (Num 4) (Str ''Eva'') (Str ''Sanz'') (Str ''South'') (Str ''700'')
           (Str ''x'') (Num 70) (Num (1 / 5))]\<rparr>"

definition example_parse :: "string \<Rightarrow> real option" where
  "example_parse =
     map_of [(''10'', 10), (''20'', 20), (''5'', 5), (''900'', 900), (''700'', 700), (''-1'', -1)]"

definition example_str :: "real \<Rightarrow> string" where
  "example_str x = []"

text \<open>The frame \<open>load_data\<close> returns for the example: the fourth seller is dropped.\<close>

definition example_df :: frame where
  "example_df =
     \<lparr>columns = [''ID'', ''NOMBRE'', ''APELLIDO'', ''REGION'', ''SALARIO'',
                 ''UNIDADES_VENDIDAS'', ''VENTAS_TOTALES'', ''PORCENTAJE_DE_VENTAS'', ''VENDEDOR''],
      rows =
        [(seller (Num 1) (Str ''Ana '') (Str ''Lopez'') (Str ''North'') NaN
            (Num 10) (Num 100) (Num (1 / 4)))(''VENDEDOR'' := Str ''Ana  Lopez''),
         (seller (Num 2) NaN (Str ''Ruiz'') (Str ''North'') (Num 900)
            (Num 20) (Num 200) (Num (3 / 2)))(''VENDEDOR'' := Str ''nan Ruiz''),
         (seller (Num 3) (Str ''Luis'') (Str ''Mora'') (Str ''South'') (Num (-1))
            (Num 5) (Num 50) (Num (1 / 10)))(''VENDEDOR'' := Str ''Luis Mora'')]\<rparr>"

text \<open>The integer format of \<open>f"{x:,}"\<close>, for a column of dtype int64.\<close>

definition grouped_int :: "real \<Rightarrow> string" where
  "grouped_int x = (if x < 0 then ''-'' else []) @ rev (group3 (rev (digits (nat \<bar>\<lfloor>x\<rfloor>\<bar>))))"

text \<open>
  What \<open>argsort\<close> of numpy promises for every kind of sort: positions of the list it is
  given, each once, with the keys at them in ascending order.
\<close>

definition sorts :: "(real list \<Rightarrow> nat list) \<Rightarrow> bool" where
  "sorts argsort \<longleftrightarrow>
     (\<forall>ks. mset (argsort ks) = mset [0..<length ks] \<and> sorted (map (\<lambda>i. ks ! i) (argsort ks)))"

text \<open>
  Two sorts that keep the promise. The first is stable: equal keys stay in the order of
  the list. The second returns equal keys in the reverse of that order.
\<close>

definition stable_argsort :: "real list \<Rightarrow> nat list" where
  "stable_argsort ks = sort_key (\<lambda>i. ks ! i) [0..<length ks]"

definition reverse_argsort :: "real list \<Rightarrow> nat list" where
  "reverse_argsort ks = sort_key (\<lambda>i. ks ! i) (rev [0..<length ks])"

text \<open>
  A stable sort, as the specification words it: the rows with the same key are in the
  result in the order they have in the input.
\<close>

definition tie_order_kept :: "string \<Rightarrow> row list \<Rightarrow> row list \<Rightarrow> bool" where
  "tie_order_kept name input result \<longleftrightarrow>
     list_all (\<lambda>r. filter (\<lambda>r'. r' name = r name) result = filter (\<lambda>r'. r' name = r name) input)
       input"

text \<open>A view of four sellers, two pairs with equal sales percentages.\<close>

definition tied_view :: frame where
  "tied_view =
     \<lparr>columns = [''ID'', ''PORCENTAJE_DE_VENTAS''],
      rows = [(\<lambda>_. NaN)(''ID'' := Num 1, ''PORCENTAJE_DE_VENTAS'' := Num (1 / 10)),
              (\<lambda>_. NaN)(''ID'' := Num 2, ''PORCENTAJE_DE_VENTAS'' := Num (1 / 10)),
              (\<lambda>_. NaN)(''ID'' := Num 3, ''PORCENTAJE_DE_VENTAS'' := Num (1 / 5)),
              (\<lambda>_. NaN)(''ID'' := Num 4, ''PORCENTAJE_DE_VENTAS'' := Num (1 / 5))]\<rparr>"

text \<open>
  Exact sums and means, which the library returns when no addition is rounded, as for
  the small numbers of the example.
\<close>

definition exact_sum :: "string \<Rightarrow> real list \<Rightarrow> real" where
  "exact_sum name vals = sum_list vals"

definition exact_mean :: "string \<Rightarrow> real list \<Rightarrow> real" where
  "exact_mean name vals = sum_list vals / real (length vals)"

text \<open>
  A view of one region whose sales are \<open>10^16\<close>, \<open>1\<close> and \<open>-10^16\<close>, each of them a
  float64, and the same rows in another order.
\<close>

definition ledger_row :: "real \<Rightarrow> row" where
  "ledger_row v =
     (\<lambda>_. NaN)(''REGION'' := Str ''North'', ''UNIDADES_VENDIDAS'' := Num 0,
                ''VENTAS_TOTALES'' := Num v, ''PORCENTAJE_DE_VENTAS'' := Num 0)"

definition ledger_columns :: "string list" where
  "ledger_columns = [''REGION'', ''UNIDADES_VENDIDAS'', ''VENTAS_TOTALES'', ''PORCENTAJE_DE_VENTAS'']"

definition ledger_a :: frame where
  "ledger_a =
     \<lparr>columns = ledger_columns,
      rows = [ledger_row 10000000000000000, ledger_row 1, ledger_row (- 10000000000000000)]\<rparr>"

definition ledger_b :: frame where
  "ledger_b =
     \<lparr>columns = ledger_columns,
      rows = [ledger_row 10000000000000000, ledger_row (- 10000000000000000), ledger_row 1]\<rparr>"

section \<open>Properties of load_data\<close>

text \<open>The column operations of the body, row by row.\<close>

lemma setitem_rows:
  "setitem df name (map g (rows df)) =
     \<lparr>columns = (if name \<in> set (columns df) then columns df else columns df @ [name]),
      rows = map (\<lambda>r. r(name := g r)) (rows df)\<rparr>"
  by (simp add: setitem_def zip_map2 zip_same_conv_map)

lemma map2_same: "map2 h (map f xs) (map g xs) = map (\<lambda>x. h (f x) (g x)) xs"
  by (induction xs) simp_all

lemma coerce_column_Inr:
  "name \<in> set (columns df) \<Longrightarrow>
   coerce_column parse name df =
     Inr \<lparr>columns = columns df, rows = map (\<lambda>r. r(name := to_numeric parse (r name))) (rows df)\<rparr>"
  by (simp add: coerce_column_def bind_def getitem_def setitem_rows o_def)

lemma coerce_column_Inl:
  "name \<notin> set (columns df) \<Longrightarrow> coerce_column parse name df = Inl (KeyError name)"
  by (simp add: coerce_column_def bind_def getitem_def)

lemma add_vendedor_Inr:
  "''NOMBRE'' \<in> set (columns df) \<Longrightarrow> ''APELLIDO'' \<in> set (columns df) \<Longrightarrow>
   add_vendedor str_num df =
     Inr \<lparr>columns = loaded_columns (columns df),
          rows = map (\<lambda>r. r(''VENDEDOR'' := Str (astype_str str_num (r ''NOMBRE'') @ '' '' @ astype_str str_num (r ''APELLIDO'')))) (rows df)\<rparr>"
  by (simp add: add_vendedor_def bind_def getitem_def map2_same setitem_rows loaded_columns_def)

lemma add_vendedor_Inl:
  "''NOMBRE'' \<notin> set (columns df) \<or> ''APELLIDO'' \<notin> set (columns df) \<Longrightarrow>
   \<exists>c \<in> set required_columns. add_vendedor str_num df = Inl (KeyError c)"
  by (auto simp add: add_vendedor_def bind_def getitem_def required_columns_def)

lemma try_body_Inr:
  assumes "set required_columns \<subseteq> set (columns df)"
  shows "try_body parse str_num df =
     Inr \<lparr>columns = loaded_columns (columns df),
          rows = map (clean_row parse str_num) (filter (metrics_coerce parse) (rows df))\<rparr>"
  using assms
  apply (simp add: try_body_def required_columns_def coerce_column_Inr bind_def add_vendedor_Inr dropna_def loaded_columns_def)
  apply (simp add: filter_map o_def clean_row_def[abs_def] metrics_coerce_def[abs_def] Let_def)
  done

lemma try_body_Inl:
  assumes "\<not> set required_columns \<subseteq> set (columns df)"
  shows "\<exists>c \<in> set required_columns. try_body parse str_num df = Inl (KeyError c)"
proof -
  consider "''UNIDADES_VENDIDAS'' \<notin> set (columns df)"
    | "''UNIDADES_VENDIDAS'' \<in> set (columns df)" "''VENTAS_TOTALES'' \<notin> set (columns df)"
    | "''UNIDADES_VENDIDAS'' \<in> set (columns df)" "''VENTAS_TOTALES'' \<in> set (columns df)"
      "''PORCENTAJE_DE_VENTAS'' \<notin> set (columns df)"
    | "''UNIDADES_VENDIDAS'' \<in> set (columns df)" "''VENTAS_TOTALES'' \<in> set (columns df)"
      "''PORCENTAJE_DE_VENTAS'' \<in> set (columns df)" "''SALARIO'' \<notin> set (columns df)"
    | "''UNIDADES_VENDIDAS'' \<in> set (columns df)" "''VENTAS_TOTALES'' \<in> set (columns df)"
      "''PORCENTAJE_DE_VENTAS'' \<in> set (columns df)" "''SALARIO'' \<in> set (columns df)"
      "''NOMBRE'' \<notin> set (columns df) \<or> ''APELLIDO'' \<notin> set (columns df)"
    using assms by (auto simp add: required_columns_def)
  then show ?thesis
  proof cases
    case 1
    then show ?thesis
      by (simp add: try_body_def coerce_column_Inl bind_def required_columns_def)
  next
    case 2
    then show ?thesis
      by (simp add: try_body_def coerce_column_Inl coerce_column_Inr bind_def required_columns_def)
  next
    case 3
    then show ?thesis
      by (simp add: try_body_def coerce_column_Inl coerce_column_Inr bind_def required_columns_def)
  next
    case 4
    then show ?thesis
      by (simp add: try_body_def coerce_column_Inl coerce_column_Inr bind_def required_columns_def)
  next
    case 5
    then have "\<exists>c \<in> set required_columns.
        add_vendedor str_num \<lparr>columns = columns df, rows = map (\<lambda>r. r(''SALARIO'' := to_numeric parse (r ''SALARIO''))) (map (\<lambda>r. r(''PORCENTAJE_DE_VENTAS'' := to_numeric parse (r ''PORCENTAJE_DE_VENTAS''))) (map (\<lambda>r. r(''VENTAS_TOTALES'' := to_numeric parse (r ''VENTAS_TOTALES''))) (map (\<lambda>r. r(''UNIDADES_VENDIDAS'' := to_numeric parse (r ''UNIDADES_VENDIDAS''))) (rows df))))\<rparr> = Inl (KeyError c)"
      by (intro add_vendedor_Inl) simp
    with 5 show ?thesis
      by (auto simp add: try_body_def coerce_column_Inr bind_def)
  qed
qed

lemma load_data_None:
  assumes "load_data parse str_num csv = (None, df)"
  shows "\<exists>raw. csv = Inr raw \<and> set required_columns \<subseteq> set (columns raw) \<and>
           columns df = loaded_columns (columns raw) \<and>
           rows df = map (clean_row parse str_num) (filter (metrics_coerce parse) (rows raw))"
proof (cases csv)
  case (Inl e)
  with assms show ?thesis
    by (simp add: load_data_def bind_def split: error.splits)
next
  case (Inr raw)
  show ?thesis
  proof (cases "set required_columns \<subseteq> set (columns raw)")
    case True
    with assms Inr show ?thesis
      by (auto simp add: load_data_def bind_def try_body_Inr)
  next
    case False
    from try_body_Inl[OF False, of parse str_num] assms Inr show ?thesis
      by (auto simp add: load_data_def bind_def)
  qed
qed

lemma load_example: "load_data example_parse example_str (Inr example_csv) = (None, example_df)"
  apply (simp add: load_data_def bind_def try_body_Inr example_csv_def required_columns_def loaded_columns_def)
  apply (simp add: example_df_def metrics_coerce_def to_numeric_def example_parse_def seller_def clean_row_def astype_str_def Let_def fun_eq_iff)
  done

lemma to_numeric_is_Num: "to_numeric parse c \<noteq> NaN \<Longrightarrow> is_Num (to_numeric parse c)"
  by (simp add: to_numeric_def split: cell.splits option.splits)

lemma clean_row_apply:
  "clean_row parse str_num r ''UNIDADES_VENDIDAS'' = to_numeric parse (r ''UNIDADES_VENDIDAS'')"
  "clean_row parse str_num r ''VENTAS_TOTALES'' = to_numeric parse (r ''VENTAS_TOTALES'')"
  "clean_row parse str_num r ''PORCENTAJE_DE_VENTAS'' = to_numeric parse (r ''PORCENTAJE_DE_VENTAS'')"
  "clean_row parse str_num r ''SALARIO'' = to_numeric parse (r ''SALARIO'')"
  "clean_row parse str_num r ''NOMBRE'' = r ''NOMBRE''"
  "clean_row parse str_num r ''APELLIDO'' = r ''APELLIDO''"
  "clean_row parse str_num r ''VENDEDOR'' =
     Str (astype_str str_num (r ''NOMBRE'') @ '' '' @ astype_str str_num (r ''APELLIDO''))"
  by (simp_all add: clean_row_def Let_def)

lemma df_filtered_region_rows:
  "''REGION'' \<in> set (columns df) \<Longrightarrow> ''TODAS'' \<notin> set S \<Longrightarrow>
   df_filtered_region df S = Inr (df\<lparr>rows := filter (\<lambda>r. isin (r ''REGION'') S) (rows df)\<rparr>)"
proof -
  have "map fst (filter snd (zip xs (map (\<lambda>r. isin (r ''REGION'') S) xs))) =
        filter (\<lambda>r. isin (r ''REGION'') S) xs" for xs :: "row list"
    by (induction xs) simp_all
  then show "''REGION'' \<in> set (columns df) \<Longrightarrow> ''TODAS'' \<notin> set S \<Longrightarrow> ?thesis"
    by (simp add: df_filtered_region_def bind_def getitem_def mask_rows_def o_def)
qed

lemma df_filtered_region_subset:
  "df_filtered_region df S = Inr view \<Longrightarrow> set (rows view) \<subseteq> set (rows df)"
  by (cases "''TODAS'' \<in> set S"; cases "''REGION'' \<in> set (columns df)")
     (auto simp add: df_filtered_region_rows, auto simp add: df_filtered_region_def bind_def getitem_def)

text \<open>
  C3. In a frame that \<open>load_data\<close> returns without a message, every row holds a number in
  \<open>UNIDADES_VENDIDAS\<close>, \<open>VENTAS_TOTALES\<close> and \<open>PORCENTAJE_DE_VENTAS\<close>; and a row of the
  file whose three metrics are numbers is kept when its salary is no number, with a
  missing salary.
\<close>

theorem load_data_metrics_present:
  assumes "load_data parse str_num csv = (None, df)"
  shows "(\<forall>r \<in> set (rows df).
            is_Num (r ''UNIDADES_VENDIDAS'') \<and> is_Num (r ''VENTAS_TOTALES'') \<and>
            is_Num (r ''PORCENTAJE_DE_VENTAS'')) \<and>
         (\<forall>raw r. csv = Inr raw \<and> r \<in> set (rows raw) \<and> metrics_coerce parse r \<and>
                  to_numeric parse (r ''SALARIO'') = NaN \<longrightarrow>
            clean_row parse str_num r \<in> set (rows df) \<and>
            clean_row parse str_num r ''SALARIO'' = NaN)"
proof -
  from load_data_None[OF assms] obtain raw where
    csv: "csv = Inr raw" and
    df: "rows df = map (clean_row parse str_num) (filter (metrics_coerce parse) (rows raw))"
    by blast
  have "is_Num (r ''UNIDADES_VENDIDAS'') \<and> is_Num (r ''VENTAS_TOTALES'') \<and>
        is_Num (r ''PORCENTAJE_DE_VENTAS'')" if "r \<in> set (rows df)" for r
    using that by (auto simp add: df clean_row_apply metrics_coerce_def to_numeric_is_Num)
  moreover have "clean_row parse str_num r \<in> set (rows df) \<and>
        clean_row parse str_num r ''SALARIO'' = NaN"
    if "csv = Inr raw'" "r \<in> set (rows raw')" "metrics_coerce parse r"
       "to_numeric parse (r ''SALARIO'') = NaN" for raw' r
    using that by (auto simp add: csv df clean_row_apply)
  ultimately show ?thesis by blast
qed

theorem load_data_metrics_present_witness:
  "load_data example_parse example_str (Inr example_csv) = (None, example_df) \<and>
   list_all (\<lambda>r. is_Num (r ''UNIDADES_VENDIDAS'') \<and> is_Num (r ''VENTAS_TOTALES'') \<and>
                  is_Num (r ''PORCENTAJE_DE_VENTAS'')) (rows example_df) \<and>
   to_numeric example_parse (hd (rows example_csv) ''SALARIO'') = NaN \<and>
   clean_row example_parse example_str (hd (rows example_csv)) \<in> set (rows example_df)"
proof -
  note t = load_data_metrics_present[OF load_example]
  have a: "list_all (\<lambda>r. is_Num (r ''UNIDADES_VENDIDAS'') \<and> is_Num (r ''VENTAS_TOTALES'') \<and>
                  is_Num (r ''PORCENTAJE_DE_VENTAS'')) (rows example_df)"
    using t by (simp add: list_all_iff)
  have pre: "hd (rows example_csv) \<in> set (rows example_csv) \<and>
             metrics_coerce example_parse (hd (rows example_csv)) \<and>
             to_numeric example_parse (hd (rows example_csv) ''SALARIO'') = NaN"
    by (simp add: example_csv_def metrics_coerce_def to_numeric_def seller_def example_parse_def)
  with t have "clean_row example_parse example_str (hd (rows example_csv)) \<in> set (rows example_df)"
    by blast
  with a pre load_example show ?thesis by simp
qed

text \<open>
  C7, as the specification states it, fails: the first seller of the example has the
  first name \<open>Ana\<close> followed by a space, and the full name keeps that space.
\<close>

theorem vendedor_trimmed_counterexample:
  "\<not> (\<forall>r \<in> set (rows (snd (load_data example_parse example_str (Inr example_csv)))).
        r ''VENDEDOR'' = spec_full_name example_str r)"
proof
  assume "\<forall>r \<in> set (rows (snd (load_data example_parse example_str (Inr example_csv)))).
        r ''VENDEDOR'' = spec_full_name example_str r"
  then have all: "\<forall>r \<in> set (rows example_df). r ''VENDEDOR'' = spec_full_name example_str r"
    by (simp add: load_example)
  have "hd (rows example_df) \<in> set (rows example_df)"
    by (simp add: example_df_def)
  with all have "hd (rows example_df) ''VENDEDOR'' = spec_full_name example_str (hd (rows example_df))"
    by blast
  moreover have "hd (rows example_df) ''VENDEDOR'' = Str ''Ana  Lopez''"
    by (simp add: example_df_def)
  moreover have "spec_full_name example_str (hd (rows example_df)) = Str ''Ana Lopez''"
    by (simp add: example_df_def spec_full_name_def seller_def astype_str_def strip_def is_space_def)
  ultimately show False by simp
qed

text \<open>
  C7, amended. In a frame that \<open>load_data\<close> returns without a message, \<open>VENDEDOR\<close> is in
  every row the text of the first name, one space and the text of the last name, neither
  of them trimmed; the region filter returns rows of that frame, so the full name is the
  one computed at load.
\<close>

theorem load_data_vendedor:
  assumes "load_data parse str_num csv = (None, df)"
  shows "(\<forall>r \<in> set (rows df).
            r ''VENDEDOR'' =
              Str (astype_str str_num (r ''NOMBRE'') @ '' '' @ astype_str str_num (r ''APELLIDO''))) \<and>
         (\<forall>S view. df_filtered_region df S = Inr view \<longrightarrow> set (rows view) \<subseteq> set (rows df))"
proof -
  from load_data_None[OF assms] obtain raw where
    csv: "csv = Inr raw" and
    df: "rows df = map (clean_row parse str_num) (filter (metrics_coerce parse) (rows raw))"
    by blast
  have "r ''VENDEDOR'' =
          Str (astype_str str_num (r ''NOMBRE'') @ '' '' @ astype_str str_num (r ''APELLIDO''))"
    if "r \<in> set (rows df)" for r
    using that by (auto simp add: df clean_row_apply)
  then show ?thesis
    using df_filtered_region_subset by blast
qed

theorem load_data_vendedor_witness:
  "load_data example_parse example_str (Inr example_csv) = (None, example_df) \<and>
   map (\<lambda>r. r ''VENDEDOR'') (rows example_df) =
     [Str ''Ana  Lopez'', Str ''nan Ruiz'', Str ''Luis Mora''] \<and>
   list_all (\<lambda>r. r ''VENDEDOR'' =
       Str (astype_str example_str (r ''NOMBRE'') @ '' '' @ astype_str example_str (r ''APELLIDO'')))
     (rows example_df)"
proof -
  note t = load_data_vendedor[OF load_example]
  then have "list_all (\<lambda>r. r ''VENDEDOR'' =
       Str (astype_str example_str (r ''NOMBRE'') @ '' '' @ astype_str example_str (r ''APELLIDO'')))
     (rows example_df)"
    by (simp add: list_all_iff)
  moreover have "map (\<lambda>r. r ''VENDEDOR'') (rows example_df) =
     [Str ''Ana  Lopez'', Str ''nan Ruiz'', Str ''Luis Mora'']"
    by (simp add: example_df_def)
  ultimately show ?thesis using load_example by simp
qed

text \<open>
  C8. \<open>load_data\<close> returns for every outcome of reading the file: its result is a message
  and a frame, with no exception among them. A missing file gives the message for the
  missing file and the empty frame; every other exception, raised by the reading or by
  the body (a column the body needs and the file lacks), gives the load error with that
  exception and the empty frame. A frame that comes with a message is empty, and for an
  empty frame the page is the error display and not the dashboard.
\<close>

theorem load_data_never_raises:
  "(\<exists>msg df. load_data parse str_num csv = (msg, df)) \<and>
   (csv = Inl FileNotFoundError \<longrightarrow>
      load_data parse str_num csv = (Some (FileMissing VENDEDORES_FILE), DataFrame)) \<and>
   (\<forall>e. e \<noteq> FileNotFoundError \<and> bind csv (try_body parse str_num) = Inl e \<longrightarrow>
      load_data parse str_num csv = (Some (LoadError e), DataFrame)) \<and>
   (\<forall>raw. csv = Inr raw \<and> \<not> set required_columns \<subseteq> set (columns raw) \<longrightarrow>
      (\<exists>c \<in> set required_columns.
         load_data parse str_num csv = (Some (LoadError (KeyError c)), DataFrame))) \<and>
   (fst (load_data parse str_num csv) \<noteq> None \<longrightarrow>
      snd (load_data parse str_num csv) = DataFrame) \<and>
   (empty (snd (load_data parse str_num csv)) \<longrightarrow>
      main_page (snd (load_data parse str_num csv)) = LoadFailed) \<and>
   main_page DataFrame = LoadFailed"
proof -
  have a: "\<exists>msg df. load_data parse str_num csv = (msg, df)"
    by (cases "load_data parse str_num csv") simp
  have b: "csv = Inl FileNotFoundError \<longrightarrow>
      load_data parse str_num csv = (Some (FileMissing VENDEDORES_FILE), DataFrame)"
    by (simp add: load_data_def bind_def)
  have c: "load_data parse str_num csv = (Some (LoadError e), DataFrame)"
    if "e \<noteq> FileNotFoundError" "bind csv (try_body parse str_num) = Inl e" for e
    using that by (cases e) (simp_all add: load_data_def)
  have d: "\<exists>c \<in> set required_columns.
         load_data parse str_num csv = (Some (LoadError (KeyError c)), DataFrame)"
    if "csv = Inr raw" "\<not> set required_columns \<subseteq> set (columns raw)" for raw
  proof -
    from try_body_Inl[OF that(2), of parse str_num] obtain k where
      "k \<in> set required_columns" "try_body parse str_num raw = Inl (KeyError k)"
      by blast
    then show ?thesis
      using that(1) by (auto simp add: load_data_def bind_def)
  qed
  have e: "fst (load_data parse str_num csv) \<noteq> None \<longrightarrow>
      snd (load_data parse str_num csv) = DataFrame"
    by (simp add: load_data_def split: sum.splits error.splits)
  have f: "empty df \<longrightarrow> main_page df = LoadFailed" for df
    by (simp add: main_page_def)
  have g: "main_page DataFrame = LoadFailed"
    by (simp add: main_page_def empty_def DataFrame_def)
  from a b c d e f g show ?thesis by blast
qed

theorem load_data_never_raises_witness:
  "load_data example_parse example_str (Inl FileNotFoundError) =
     (Some (FileMissing ''vendedores.csv''), DataFrame) \<and>
   load_data example_parse example_str (Inl (OtherException ''ParserError'')) =
     (Some (LoadError (OtherException ''ParserError'')), DataFrame) \<and>
   load_data example_parse example_str (Inr \<lparr>columns = [''ID'', ''REGION''], rows = []\<rparr>) =
     (Some (LoadError (KeyError ''UNIDADES_VENDIDAS'')), DataFrame) \<and>
   main_page DataFrame = LoadFailed"
proof -
  note t1 = load_data_never_raises[of example_parse example_str "Inl FileNotFoundError"]
  note t2 = load_data_never_raises[of example_parse example_str "Inl (OtherException ''ParserError'')"]
  have a: "load_data example_parse example_str (Inl FileNotFoundError) =
     (Some (FileMissing ''vendedores.csv''), DataFrame)"
    using t1 by (simp add: VENDEDORES_FILE_def)
  have "OtherException ''ParserError'' \<noteq> FileNotFoundError \<and>
        bind (Inl (OtherException ''ParserError'')) (try_body example_parse example_str) =
          Inl (OtherException ''ParserError'')"
    by (simp add: bind_def)
  with t2 have b: "load_data example_parse example_str (Inl (OtherException ''ParserError'')) =
     (Some (LoadError (OtherException ''ParserError'')), DataFrame)"
    by blast
  have c: "load_data example_parse example_str (Inr \<lparr>columns = [''ID'', ''REGION''], rows = []\<rparr>) =
     (Some (LoadError (KeyError ''UNIDADES_VENDIDAS'')), DataFrame)"
    by (simp add: load_data_def bind_def try_body_def coerce_column_Inl)
  from a b c t1 show ?thesis by simp
qed

text \<open>
  C9, as the specification states it, fails: the example has a seller with a sales
  percentage of 3/2 and a seller with a salary of -1, and both rows are in the loaded frame.
\<close>

theorem load_data_ranges_counterexample:
  "\<not> (\<forall>r \<in> set (rows (snd (load_data example_parse example_str (Inr example_csv)))).
        spec_ranges r)"
proof
  assume "\<forall>r \<in> set (rows (snd (load_data example_parse example_str (Inr example_csv)))).
        spec_ranges r"
  then have all: "\<forall>r \<in> set (rows example_df). spec_ranges r"
    by (simp add: load_example)
  have "rows example_df ! 1 \<in> set (rows example_df)"
    by (simp add: example_df_def)
  with all have "spec_ranges (rows example_df ! 1)"
    by blast
  then show False
    by (simp add: example_df_def spec_ranges_def seller_def)
qed

text \<open>
  C9, amended. In a frame that \<open>load_data\<close> returns, every row holds a number in the
  units, the sales and the sales percentage, and its salary is a number or missing.
  \<open>load_data\<close> checks no range: a row of the file whose units, sales and sales percentage
  coerce to numbers is in the loaded frame with those three numbers, whatever their sign
  and size, and with its salary as it coerces.
\<close>

theorem load_data_keeps_numbers:
  assumes "load_data parse str_num (Inr raw) = (None, df)"
  shows "(\<forall>r' \<in> set (rows df).
            is_Num (r' ''UNIDADES_VENDIDAS'') \<and> is_Num (r' ''VENTAS_TOTALES'') \<and>
            is_Num (r' ''PORCENTAJE_DE_VENTAS'') \<and>
            (r' ''SALARIO'' = NaN \<or> is_Num (r' ''SALARIO''))) \<and>
         (\<forall>r \<in> set (rows raw). \<forall>u v p.
            to_numeric parse (r ''UNIDADES_VENDIDAS'') = Num u \<and>
            to_numeric parse (r ''VENTAS_TOTALES'') = Num v \<and>
            to_numeric parse (r ''PORCENTAJE_DE_VENTAS'') = Num p \<longrightarrow>
            (\<exists>r' \<in> set (rows df).
               r' ''UNIDADES_VENDIDAS'' = Num u \<and> r' ''VENTAS_TOTALES'' = Num v \<and>
               r' ''PORCENTAJE_DE_VENTAS'' = Num p \<and>
               r' ''SALARIO'' = to_numeric parse (r ''SALARIO'')))"
proof -
  from load_data_None[OF assms] have
    df: "rows df = map (clean_row parse str_num) (filter (metrics_coerce parse) (rows raw))"
    by auto
  have sal: "to_numeric parse c = NaN \<or> is_Num (to_numeric parse c)" for c
    by (simp add: to_numeric_def split: cell.splits option.splits)
  have a: "is_Num (r' ''UNIDADES_VENDIDAS'') \<and> is_Num (r' ''VENTAS_TOTALES'') \<and>
        is_Num (r' ''PORCENTAJE_DE_VENTAS'') \<and>
        (r' ''SALARIO'' = NaN \<or> is_Num (r' ''SALARIO''))" if "r' \<in> set (rows df)" for r'
  proof -
    from that obtain r where "r \<in> set (rows raw)" "metrics_coerce parse r"
      and r': "r' = clean_row parse str_num r"
      by (auto simp add: df)
    then show ?thesis
      using sal[of "r ''SALARIO''"]
      by (simp add: r' clean_row_apply metrics_coerce_def to_numeric_is_Num)
  qed
  have b: "\<exists>r' \<in> set (rows df).
               r' ''UNIDADES_VENDIDAS'' = Num u \<and> r' ''VENTAS_TOTALES'' = Num v \<and>
               r' ''PORCENTAJE_DE_VENTAS'' = Num p \<and>
               r' ''SALARIO'' = to_numeric parse (r ''SALARIO'')"
    if r: "r \<in> set (rows raw)"
      and n: "to_numeric parse (r ''UNIDADES_VENDIDAS'') = Num u \<and>
              to_numeric parse (r ''VENTAS_TOTALES'') = Num v \<and>
              to_numeric parse (r ''PORCENTAJE_DE_VENTAS'') = Num p" for r u v p
  proof -
    from n have "metrics_coerce parse r"
      by (simp add: metrics_coerce_def)
    with r have "clean_row parse str_num r \<in> set (rows df)"
      by (simp add: df)
    then show ?thesis
      using n by (intro bexI[of _ "clean_row parse str_num r"]) (simp_all add: clean_row_apply)
  qed
  from a b show ?thesis
    by blast
qed

theorem load_data_keeps_numbers_witness:
  "load_data example_parse example_str (Inr example_csv) = (None, example_df) \<and>
   to_numeric example_parse ((rows example_csv ! 1) ''PORCENTAJE_DE_VENTAS'') = Num (3 / 2) \<and>
   to_numeric example_parse ((rows example_csv ! 2) ''SALARIO'') = Num (- 1) \<and>
   (\<exists>r' \<in> set (rows example_df).
      r' ''UNIDADES_VENDIDAS'' = Num 20 \<and> r' ''VENTAS_TOTALES'' = Num 200 \<and>
      r' ''PORCENTAJE_DE_VENTAS'' = Num (3 / 2)) \<and>
   (\<exists>r' \<in> set (rows example_df).
      r' ''UNIDADES_VENDIDAS'' = Num 5 \<and> r' ''SALARIO'' = Num (- 1)) \<and>
   list_all (\<lambda>r'. is_Num (r' ''UNIDADES_VENDIDAS'') \<and> is_Num (r' ''VENTAS_TOTALES'') \<and>
                   is_Num (r' ''PORCENTAJE_DE_VENTAS'') \<and>
                   (r' ''SALARIO'' = NaN \<or> is_Num (r' ''SALARIO''))) (rows example_df)"
proof -
  note t = load_data_keeps_numbers[OF load_example]
  have r1: "rows example_csv ! 1 \<in> set (rows example_csv)"
    and r2: "rows example_csv ! 2 \<in> set (rows example_csv)"
    by (simp_all add: example_csv_def)
  have c1: "to_numeric example_parse ((rows example_csv ! 1) ''UNIDADES_VENDIDAS'') = Num 20 \<and>
    to_numeric example_parse ((rows example_csv ! 1) ''VENTAS_TOTALES'') = Num 200 \<and>
    to_numeric example_parse ((rows example_csv ! 1) ''PORCENTAJE_DE_VENTAS'') = Num (3 / 2)"
    by (simp add: example_csv_def seller_def to_numeric_def example_parse_def)
  have c2: "to_numeric example_parse ((rows example_csv ! 2) ''UNIDADES_VENDIDAS'') = Num 5 \<and>
    to_numeric example_parse ((rows example_csv ! 2) ''VENTAS_TOTALES'') = Num 50 \<and>
    to_numeric example_parse ((rows example_csv ! 2) ''PORCENTAJE_DE_VENTAS'') = Num (1 / 10)"
    and s2: "to_numeric example_parse ((rows example_csv ! 2) ''SALARIO'') = Num (- 1)"
    by (simp_all add: example_csv_def seller_def to_numeric_def example_parse_def)
  from t r1 c1 have e1: "\<exists>r' \<in> set (rows example_df).
      r' ''UNIDADES_VENDIDAS'' = Num 20 \<and> r' ''VENTAS_TOTALES'' = Num 200 \<and>
      r' ''PORCENTAJE_DE_VENTAS'' = Num (3 / 2)"
    by blast
  from t r2 c2 have "\<exists>r' \<in> set (rows example_df).
      r' ''UNIDADES_VENDIDAS'' = Num 5 \<and> r' ''VENTAS_TOTALES'' = Num 50 \<and>
      r' ''PORCENTAJE_DE_VENTAS'' = Num (1 / 10) \<and>
      r' ''SALARIO'' = to_numeric example_parse ((rows example_csv ! 2) ''SALARIO'')"
    by blast
  then have e2: "\<exists>r' \<in> set (rows example_df).
      r' ''UNIDADES_VENDIDAS'' = Num 5 \<and> r' ''SALARIO'' = Num (- 1)"
    using s2 by auto
  from t have a: "list_all (\<lambda>r'. is_Num (r' ''UNIDADES_VENDIDAS'') \<and> is_Num (r' ''VENTAS_TOTALES'') \<and>
                   is_Num (r' ''PORCENTAJE_DE_VENTAS'') \<and>
                   (r' ''SALARIO'' = NaN \<or> is_Num (r' ''SALARIO''))) (rows example_df)"
    by (simp add: list_all_iff)
  from load_example c1 s2 e1 e2 a show ?thesis
    by simp
qed

text \<open>
  C10. The rows that \<open>load_data\<close> keeps are those whose units, sales and sales percentage
  coerce to numbers, whatever their names are: such a row is kept when its first or last
  name is missing, and its full name then has the text \<open>nan\<close> where the name is missing.
\<close>

theorem load_data_missing_name:
  assumes "load_data parse str_num (Inr raw) = (None, df)"
    and "r \<in> set (rows raw)"
    and "metrics_coerce parse r"
  shows "clean_row parse str_num r \<in> set (rows df) \<and>
         length (rows df) = length (filter (metrics_coerce parse) (rows raw)) \<and>
         (r ''NOMBRE'' = NaN \<longrightarrow>
            clean_row parse str_num r ''VENDEDOR'' =
              Str (''nan'' @ '' '' @ astype_str str_num (r ''APELLIDO''))) \<and>
         (r ''APELLIDO'' = NaN \<longrightarrow>
            clean_row parse str_num r ''VENDEDOR'' =
              Str (astype_str str_num (r ''NOMBRE'') @ '' '' @ ''nan''))"
proof -
  from load_data_None[OF assms(1)] have
    df: "rows df = map (clean_row parse str_num) (filter (metrics_coerce parse) (rows raw))"
    by auto
  from assms(2,3) have "clean_row parse str_num r \<in> set (rows df)"
    by (simp add: df)
  moreover have "length (rows df) = length (filter (metrics_coerce parse) (rows raw))"
    by (simp add: df)
  ultimately show ?thesis
    by (simp add: clean_row_apply astype_str_def)
qed

theorem load_data_missing_name_witness:
  "load_data example_parse example_str (Inr example_csv) = (None, example_df) \<and>
   (rows example_csv ! 1) ''NOMBRE'' = NaN \<and>
   metrics_coerce example_parse (rows example_csv ! 1) \<and>
   clean_row example_parse example_str (rows example_csv ! 1) \<in> set (rows example_df) \<and>
   clean_row example_parse example_str (rows example_csv ! 1) ''VENDEDOR'' = Str ''nan Ruiz''"
proof -
  have r1: "rows example_csv ! 1 \<in> set (rows example_csv)"
    by (simp add: example_csv_def)
  have m: "metrics_coerce example_parse (rows example_csv ! 1)"
    by (simp add: example_csv_def seller_def metrics_coerce_def to_numeric_def example_parse_def)
  have n: "(rows example_csv ! 1) ''NOMBRE'' = NaN"
    "astype_str example_str ((rows example_csv ! 1) ''APELLIDO'') = ''Ruiz''"
    by (simp_all add: example_csv_def seller_def astype_str_def)
  from load_data_missing_name[OF load_example r1 m] m n load_example
  show ?thesis by simp
qed

lemma usd_zero: "usd 0 = ''$0''"
  by (simp add: usd_def format_0f_def round_half_even_def digits.simps)

lemma grouped_int_zero: "grouped_int 0 = ''0''"
  by (simp add: grouped_int_def digits.simps)

text \<open>
  C1, as the specification states it, fails for the empty selection: on the loaded
  example, which has three rows, the filter returns no row.
\<close>

theorem df_filtered_region_empty_counterexample:
  "\<not> (\<exists>view. df_filtered_region example_df [] = Inr view \<and> rows view = rows example_df)"
  by (simp add: df_filtered_region_rows example_df_def isin_def split: cell.splits)

text \<open>
  C1, amended. When the selection contains \<open>TODAS\<close> the filter returns the frame itself:
  the same rows in the same order. When the selection is empty it returns the frame with
  no rows.
\<close>

theorem df_filtered_region_todas:
  "(''TODAS'' \<in> set S \<longrightarrow> df_filtered_region df S = Inr df) \<and>
   (''REGION'' \<in> set (columns df) \<longrightarrow> df_filtered_region df [] = Inr (df\<lparr>rows := []\<rparr>))"
  by (simp add: df_filtered_region_rows isin_def split: cell.splits)
     (simp add: df_filtered_region_def)

theorem df_filtered_region_todas_witness:
  "df_filtered_region example_df [''TODAS''] = Inr example_df \<and>
   df_filtered_region example_df [''South'', ''TODAS''] = Inr example_df \<and>
   ''REGION'' \<in> set (columns example_df) \<and>
   df_filtered_region example_df [] = Inr (example_df\<lparr>rows := []\<rparr>)"
proof -
  have c: "''REGION'' \<in> set (columns example_df)"
    by (simp add: example_df_def)
  from df_filtered_region_todas[of "[''TODAS'']" example_df]
       df_filtered_region_todas[of "[''South'', ''TODAS'']" example_df] c
  show ?thesis by simp
qed

text \<open>
  C6. For a selection without \<open>TODAS\<close>, on a frame with a \<open>REGION\<close> column, the filter
  returns the rows whose region is a text of the selection and no others, in the order of
  the frame: a subsequence of its rows, so at most as many.
\<close>

theorem df_filtered_region_selects:
  assumes "''TODAS'' \<notin> set S" and "''REGION'' \<in> set (columns df)"
  shows "\<exists>view. df_filtered_region df S = Inr view \<and> columns view = columns df \<and>
           rows view = filter (\<lambda>r. \<exists>s \<in> set S. r ''REGION'' = Str s) (rows df) \<and>
           subseq (rows view) (rows df) \<and> length (rows view) \<le> length (rows df)"
proof -
  have "isin c S \<longleftrightarrow> (\<exists>s \<in> set S. c = Str s)" for c
    by (cases c) (auto simp add: isin_def)
  then show ?thesis
    using assms by (simp add: df_filtered_region_rows)
qed

theorem df_filtered_region_selects_witness:
  "''TODAS'' \<notin> set [''North''] \<and> ''REGION'' \<in> set (columns example_df) \<and>
   df_filtered_region example_df [''North''] = Inr (example_df\<lparr>rows := take 2 (rows example_df)\<rparr>) \<and>
   length (take 2 (rows example_df)) = 2"
proof -
  have h: "''TODAS'' \<notin> set [''North'']" "''REGION'' \<in> set (columns example_df)"
    by (simp_all add: example_df_def)
  from df_filtered_region_selects[OF h] obtain view where
    v: "df_filtered_region example_df [''North''] = Inr view" "columns view = columns example_df"
      "rows view = filter (\<lambda>r. \<exists>s \<in> set [''North'']. r ''REGION'' = Str s) (rows example_df)"
    by blast
  have "rows view = take 2 (rows example_df)"
    by (simp add: v(3) example_df_def seller_def)
  with v(2) have "view = example_df\<lparr>rows := take 2 (rows example_df)\<rparr>"
    by (cases view) (simp add: example_df_def)
  with v(1) h show ?thesis
    by (simp add: example_df_def)
qed

text \<open>
  C2, as the specification states it, fails: on the empty view of the example, which the
  empty selection gives, the total of sales is displayed as \<open>$0\<close> and not as \<open>N/A\<close>.
\<close>

theorem summary_metrics_empty_counterexample:
  "\<not> (\<exists>m. summary_metrics exact_sum grouped_int (example_df\<lparr>rows := []\<rparr>) = Inr m \<and>
          total_ventas m = ''N/A'' \<and> total_unidades m = ''N/A'' \<and>
          max_sales_value m = Str ''N/A'')"
  by (simp add: summary_metrics_def bind_def getitem_def example_df_def max_sales_metric_def
        empty_def series_sum_def usd_zero)

text \<open>
  C2, amended. On a view with no rows that has the columns of sales, units and seller
  ids, no exception is raised; the metric of the top seller has \<open>N/A\<close> as its value and as
  its delta, the total of sales is displayed as \<open>$0\<close>, and the total of units as the number
  zero in the format with thousands separators.
\<close>

theorem summary_metrics_empty_view:
  assumes "rows view = []"
    and "''VENTAS_TOTALES'' \<in> set (columns view)"
    and "''UNIDADES_VENDIDAS'' \<in> set (columns view)"
    and "''ID'' \<in> set (columns view)"
  shows "summary_metrics column_sum grouped view =
           Inr \<lparr>total_ventas = ''$0'', total_unidades = grouped 0, num_vendedores = 0,
                max_sales_value = Str ''N/A'', max_sales_delta = ''N/A''\<rparr>"
  using assms
  by (simp add: summary_metrics_def bind_def getitem_def max_sales_metric_def empty_def
        series_sum_def nunique_def usd_zero)

theorem summary_metrics_empty_view_witness:
  "df_filtered_region example_df [] = Inr (example_df\<lparr>rows := []\<rparr>) \<and>
   summary_metrics exact_sum grouped_int (example_df\<lparr>rows := []\<rparr>) =
     Inr \<lparr>total_ventas = ''$0'', total_unidades = ''0'', num_vendedores = 0,
          max_sales_value = Str ''N/A'', max_sales_delta = ''N/A''\<rparr>"
proof -
  have h: "rows (example_df\<lparr>rows := []\<rparr>) = []"
    "''VENTAS_TOTALES'' \<in> set (columns (example_df\<lparr>rows := []\<rparr>))"
    "''UNIDADES_VENDIDAS'' \<in> set (columns (example_df\<lparr>rows := []\<rparr>))"
    "''ID'' \<in> set (columns (example_df\<lparr>rows := []\<rparr>))"
    by (simp_all add: example_df_def)
  have "df_filtered_region example_df [] = Inr (example_df\<lparr>rows := []\<rparr>)"
    by (simp add: df_filtered_region_rows example_df_def isin_def split: cell.splits)
  with summary_metrics_empty_view[OF h, of exact_sum grouped_int] show ?thesis
    by (simp add: grouped_int_zero)
qed

lemma floor_log2:
  fixes x :: real
  assumes "2 ^ n \<le> x" and "x < 2 ^ Suc n"
  shows "\<lfloor>log 2 x\<rfloor> = int n"
proof -
  have "(0::real) < 2 ^ n"
    by simp
  with assms(1) have x: "0 < x"
    by linarith
  have "real n \<le> log 2 x"
    using assms(1) x by (simp add: le_log_iff powr_realpow)
  moreover have "log 2 x < real n + 1"
    using assms(2) x by (simp add: log_less_iff powr_realpow powr_add)
  ultimately show ?thesis
    by (simp add: floor_eq_iff)
qed

lemma f64_binade:
  assumes "2 ^ n \<le> \<bar>x\<bar>" and "\<bar>x\<bar> < 2 ^ Suc n"
  shows "f64 x = of_int (round_half_even (x / 2 powr (real n - 52))) * 2 powr (real n - 52)"
proof -
  have "(0::real) < 2 ^ n"
    by simp
  with assms(1) have "0 < \<bar>x\<bar>"
    by linarith
  then have "x \<noteq> 0"
    by simp
  then show ?thesis
    by (simp add: f64_def floor_log2[OF assms] Let_def)
qed

lemma f64_values:
  "f64 0 = 0"
  "f64 1 = 1"
  "f64 (- 1) = - 1"
  "f64 10000000000000000 = 10000000000000000"
  "f64 (- 10000000000000000) = - 10000000000000000"
  "f64 10000000000000001 = 10000000000000000"
  "f64 (- 9999999999999999) = - 10000000000000000"
proof -
  show "f64 0 = 0"
    by (simp add: f64_def)
  show "f64 1 = 1"
    using f64_binade[of 0 1] by (simp add: round_half_even_def powr_minus)
  show "f64 (- 1) = - 1"
    using f64_binade[of 0 "- 1"] by (simp add: round_half_even_def powr_minus)
  show "f64 10000000000000000 = 10000000000000000"
    using f64_binade[of 53 10000000000000000] by (simp add: round_half_even_def)
  show "f64 (- 10000000000000000) = - 10000000000000000"
    using f64_binade[of 53 "- 10000000000000000"] by (simp add: round_half_even_def)
  show "f64 10000000000000001 = 10000000000000000"
    using f64_binade[of 53 10000000000000001] by (simp add: round_half_even_def)
  show "f64 (- 9999999999999999) = - 10000000000000000"
    using f64_binade[of 53 "- 9999999999999999"] by (simp add: round_half_even_def)
qed

lemma kahan_ledger:
  "group_sum_f64 [10000000000000000, 1, - 10000000000000000] = 0"
  "group_sum_f64 [10000000000000000, - 10000000000000000, 1] = 1"
  "group_sum_f64 [0, 0, 0] = 0"
  "group_mean_f64 [0, 0, 0] = 0"
  by (simp_all add: group_sum_f64_def group_mean_f64_def f64_values Let_def)

lemma group_of_map:
  "group_of k (map f rs) (map g rs) = map g (filter (\<lambda>r. f r = k) rs)"
  by (induction rs) (simp_all add: group_of_def)

lemma valid_numbers:
  "list_all (\<lambda>r. is_Num (g r)) rs \<Longrightarrow> valid (map g rs) = map (\<lambda>r. key_num (g r)) rs"
proof (induction rs)
  case Nil
  then show ?case by simp
next
  case (Cons r rs)
  then show ?case by (cases "g r") (simp_all add: key_num_def)
qed

lemma mset_valid: "mset (valid cs) = image_mset key_num (filter_mset is_Num (mset cs))"
  by (induction cs rule: valid.induct) (simp_all add: key_num_def)

lemma valid_mset_cong: "mset cs = mset cs' \<Longrightarrow> mset (valid cs) = mset (valid cs')"
  by (simp add: mset_valid)

lemma valid_filter_numbers:
  assumes "list_all (\<lambda>r. is_Num (g r)) rs"
  shows "valid (map g (filter P rs)) = map (\<lambda>r. key_num (g r)) (filter P rs)"
proof -
  from assms have "list_all (\<lambda>r. is_Num (g r)) (filter P rs)"
    by (simp add: list_all_iff)
  then show ?thesis
    by (rule valid_numbers)
qed

lemma inj_cell_key: "inj cell_key"
  by (rule injI) (simp add: cell_key_def split: cell.splits)

lemma group_keys_set: "set cs = set cs' \<Longrightarrow> group_keys cs = group_keys cs'"
proof -
  assume s: "set cs = set cs'"
  let ?xs = "sort_key cell_key (remdups (filter (\<lambda>c. c \<noteq> NaN) cs))"
  let ?ys = "sort_key cell_key (remdups (filter (\<lambda>c. c \<noteq> NaN) cs'))"
  have a: "sorted (map cell_key ?xs)" and c: "sorted (map cell_key ?ys)"
    by (rule sorted_sort_key)+
  have b: "distinct (map cell_key ?xs)" and d: "distinct (map cell_key ?ys)"
    by (simp_all add: distinct_map inj_on_subset[OF inj_cell_key])
  have e: "set (map cell_key ?xs) = set (map cell_key ?ys)"
    using s by simp
  from a b c d e have "map cell_key ?xs = map cell_key ?ys"
    by (rule sorted_distinct_set_unique)
  then show ?thesis
    by (simp add: group_keys_def inj_cell_key)
qed

lemma df_grouped_region_Inr:
  assumes "''REGION'' \<in> set (columns view)" "''UNIDADES_VENDIDAS'' \<in> set (columns view)"
    "''VENTAS_TOTALES'' \<in> set (columns view)" "''PORCENTAJE_DE_VENTAS'' \<in> set (columns view)"
  shows "df_grouped_region group_sum group_mean view =
     Inr (map (\<lambda>k. \<lparr>REGION = k,
              Total_Unidades = series_sum (group_sum ''UNIDADES_VENDIDAS'')
                (map (\<lambda>r. r ''UNIDADES_VENDIDAS'') (filter (\<lambda>r. r ''REGION'' = k) (rows view))),
              Total_Ventas = series_sum (group_sum ''VENTAS_TOTALES'')
                (map (\<lambda>r. r ''VENTAS_TOTALES'') (filter (\<lambda>r. r ''REGION'' = k) (rows view))),
              Promedio_Porcentaje = series_mean (group_mean ''PORCENTAJE_DE_VENTAS'')
                (map (\<lambda>r. r ''PORCENTAJE_DE_VENTAS'') (filter (\<lambda>r. r ''REGION'' = k) (rows view)))\<rparr>)
            (group_keys (map (\<lambda>r. r ''REGION'') (rows view))))"
  using assms by (simp add: df_grouped_region_def bind_def getitem_def group_of_map)

text \<open>
  C4, as the specification states it, fails: the sums of a group depend on the order of
  the rows. Three rows of one region with sales \<open>10^16\<close>, \<open>1\<close> and \<open>-10^16\<close> have the
  total \<open>0\<close> in this order and the total \<open>1\<close> when the second and the third row change
  places, in the compensated float64 sum of the library.
\<close>

theorem df_grouped_region_order_counterexample:
  "columns ledger_b = columns ledger_a \<and> mset (rows ledger_b) = mset (rows ledger_a) \<and>
   df_grouped_region (\<lambda>name. group_sum_f64) (\<lambda>name. group_mean_f64) ledger_a =
     Inr [\<lparr>REGION = Str ''North'', Total_Unidades = 0, Total_Ventas = 0,
           Promedio_Porcentaje = Num 0\<rparr>] \<and>
   df_grouped_region (\<lambda>name. group_sum_f64) (\<lambda>name. group_mean_f64) ledger_b =
     Inr [\<lparr>REGION = Str ''North'', Total_Unidades = 0, Total_Ventas = 1,
           Promedio_Porcentaje = Num 0\<rparr>]"
proof -
  have c: "''REGION'' \<in> set (columns ledger_a)" "''UNIDADES_VENDIDAS'' \<in> set (columns ledger_a)"
    "''VENTAS_TOTALES'' \<in> set (columns ledger_a)" "''PORCENTAJE_DE_VENTAS'' \<in> set (columns ledger_a)"
    "''REGION'' \<in> set (columns ledger_b)" "''UNIDADES_VENDIDAS'' \<in> set (columns ledger_b)"
    "''VENTAS_TOTALES'' \<in> set (columns ledger_b)" "''PORCENTAJE_DE_VENTAS'' \<in> set (columns ledger_b)"
    by (simp_all add: ledger_a_def ledger_b_def ledger_columns_def)
  have k: "group_keys (map (\<lambda>r. r ''REGION'') (rows ledger_a)) = [Str ''North'']"
    "group_keys (map (\<lambda>r. r ''REGION'') (rows ledger_b)) = [Str ''North'']"
    by (simp_all add: group_keys_def ledger_a_def ledger_b_def ledger_row_def)
  have a: "df_grouped_region (\<lambda>name. group_sum_f64) (\<lambda>name. group_mean_f64) ledger_a =
     Inr [\<lparr>REGION = Str ''North'', Total_Unidades = 0, Total_Ventas = 0,
           Promedio_Porcentaje = Num 0\<rparr>]"
    unfolding df_grouped_region_Inr[OF c(1-4)] k
    by (simp add: ledger_a_def ledger_row_def series_sum_def series_mean_def kahan_ledger)
  have b: "df_grouped_region (\<lambda>name. group_sum_f64) (\<lambda>name. group_mean_f64) ledger_b =
     Inr [\<lparr>REGION = Str ''North'', Total_Unidades = 0, Total_Ventas = 1,
           Promedio_Porcentaje = Num 0\<rparr>]"
    unfolding df_grouped_region_Inr[OF c(5-8)] k
    by (simp add: ledger_b_def ledger_row_def series_sum_def series_mean_def kahan_ledger)
  have m: "columns ledger_b = columns ledger_a \<and> mset (rows ledger_b) = mset (rows ledger_a)"
    by (simp add: ledger_a_def ledger_b_def)
  from a b m show ?thesis
    by simp
qed

text \<open>
  C4, amended. On a view with a \<open>REGION\<close> column and numbers in the three metric columns,
  the grouping returns one record for each region that a row of the view has, and no other.
  The record of a region holds what the library's sum returns for the units, and for the
  sales, of exactly the rows of that region in their order, and what its mean returns for
  their sales percentages. A view with the same rows in another order has the same regions;
  it has the same records when the sum and the mean of the library do not depend on the
  order of the numbers, as in exact arithmetic, where the totals are the sums.
\<close>

theorem df_grouped_region_sums:
  assumes "''REGION'' \<in> set (columns view)"
    and "numeric_column ''UNIDADES_VENDIDAS'' view"
    and "numeric_column ''VENTAS_TOTALES'' view"
    and "numeric_column ''PORCENTAJE_DE_VENTAS'' view"
  shows "\<exists>groups. df_grouped_region group_sum group_mean view = Inr groups \<and>
     distinct (map REGION groups) \<and>
     set (map REGION groups) = (\<lambda>r. r ''REGION'') ` set (rows view) - {NaN} \<and>
     (\<forall>g \<in> set groups.
        Total_Unidades g =
          group_sum ''UNIDADES_VENDIDAS''
            (map (\<lambda>r. key_num (r ''UNIDADES_VENDIDAS''))
               (filter (\<lambda>r. r ''REGION'' = REGION g) (rows view))) \<and>
        Total_Ventas g =
          group_sum ''VENTAS_TOTALES''
            (map (\<lambda>r. key_num (r ''VENTAS_TOTALES''))
               (filter (\<lambda>r. r ''REGION'' = REGION g) (rows view))) \<and>
        Promedio_Porcentaje g =
          Num (group_mean ''PORCENTAJE_DE_VENTAS''
                 (map (\<lambda>r. key_num (r ''PORCENTAJE_DE_VENTAS''))
                    (filter (\<lambda>r. r ''REGION'' = REGION g) (rows view))))) \<and>
     (\<forall>view'. columns view' = columns view \<and> mset (rows view') = mset (rows view) \<longrightarrow>
        (\<exists>groups'. df_grouped_region group_sum group_mean view' = Inr groups' \<and>
           map REGION groups' = map REGION groups \<and>
           ((\<forall>name xs ys. mset xs = mset ys \<longrightarrow>
               group_sum name xs = group_sum name ys \<and> group_mean name xs = group_mean name ys) \<longrightarrow>
            groups' = groups))) \<and>
     ((\<forall>name xs. group_sum name xs = sum_list xs) \<longrightarrow>
        (\<forall>g \<in> set groups.
           Total_Unidades g =
             (\<Sum>r\<leftarrow>filter (\<lambda>r. r ''REGION'' = REGION g) (rows view).
                key_num (r ''UNIDADES_VENDIDAS'')) \<and>
           Total_Ventas g =
             (\<Sum>r\<leftarrow>filter (\<lambda>r. r ''REGION'' = REGION g) (rows view).
                key_num (r ''VENTAS_TOTALES''))))"
proof -
  let ?keys = "\<lambda>v. group_keys (map (\<lambda>r. r ''REGION'') (rows v))"
  let ?agg = "\<lambda>v k. \<lparr>REGION = k,
              Total_Unidades = series_sum (group_sum ''UNIDADES_VENDIDAS'')
                (map (\<lambda>r. r ''UNIDADES_VENDIDAS'') (filter (\<lambda>r. r ''REGION'' = k) (rows v))),
              Total_Ventas = series_sum (group_sum ''VENTAS_TOTALES'')
                (map (\<lambda>r. r ''VENTAS_TOTALES'') (filter (\<lambda>r. r ''REGION'' = k) (rows v))),
              Promedio_Porcentaje = series_mean (group_mean ''PORCENTAJE_DE_VENTAS'')
                (map (\<lambda>r. r ''PORCENTAJE_DE_VENTAS'') (filter (\<lambda>r. r ''REGION'' = k) (rows v)))\<rparr>"
  let ?groups = "map (?agg view) (?keys view)"
  from assms have cols: "''UNIDADES_VENDIDAS'' \<in> set (columns view)"
    "''VENTAS_TOTALES'' \<in> set (columns view)" "''PORCENTAJE_DE_VENTAS'' \<in> set (columns view)"
    and nums: "list_all (\<lambda>r. is_Num (r ''UNIDADES_VENDIDAS'')) (rows view)"
      "list_all (\<lambda>r. is_Num (r ''VENTAS_TOTALES'')) (rows view)"
      "list_all (\<lambda>r. is_Num (r ''PORCENTAJE_DE_VENTAS'')) (rows view)"
    by (simp_all add: numeric_column_def)
  have eq: "df_grouped_region group_sum group_mean view = Inr ?groups"
    using assms(1) cols by (rule df_grouped_region_Inr)
  have keys: "map REGION ?groups = ?keys view"
    by (simp add: o_def)
  have d: "distinct (map REGION ?groups)"
    unfolding keys by (simp add: group_keys_def)
  have s: "set (map REGION ?groups) = (\<lambda>r. r ''REGION'') ` set (rows view) - {NaN}"
    unfolding keys by (auto simp add: group_keys_def)
  have v: "Total_Unidades g =
          group_sum ''UNIDADES_VENDIDAS''
            (map (\<lambda>r. key_num (r ''UNIDADES_VENDIDAS''))
               (filter (\<lambda>r. r ''REGION'' = REGION g) (rows view))) \<and>
        Total_Ventas g =
          group_sum ''VENTAS_TOTALES''
            (map (\<lambda>r. key_num (r ''VENTAS_TOTALES''))
               (filter (\<lambda>r. r ''REGION'' = REGION g) (rows view))) \<and>
        Promedio_Porcentaje g =
          Num (group_mean ''PORCENTAJE_DE_VENTAS''
                 (map (\<lambda>r. key_num (r ''PORCENTAJE_DE_VENTAS''))
                    (filter (\<lambda>r. r ''REGION'' = REGION g) (rows view))))"
    if "g \<in> set ?groups" for g
  proof -
    from that obtain k where k: "k \<in> set (?keys view)" and g: "g = ?agg view k"
      by auto
    from k have "k \<in> (\<lambda>r. r ''REGION'') ` set (rows view)"
      by (auto simp add: group_keys_def)
    then have ne: "filter (\<lambda>r. r ''REGION'' = k) (rows view) \<noteq> []"
      by (auto simp add: filter_empty_conv)
    show ?thesis
      using ne
      by (simp add: g series_sum_def series_mean_def valid_filter_numbers[OF nums(1)]
          valid_filter_numbers[OF nums(2)] valid_filter_numbers[OF nums(3)])
  qed
  have p: "\<exists>groups'. df_grouped_region group_sum group_mean view' = Inr groups' \<and>
           map REGION groups' = map REGION ?groups \<and>
           ((\<forall>name xs ys. mset xs = mset ys \<longrightarrow>
               group_sum name xs = group_sum name ys \<and> group_mean name xs = group_mean name ys) \<longrightarrow>
            groups' = ?groups)"
    if vc: "columns view' = columns view \<and> mset (rows view') = mset (rows view)" for view'
  proof -
    have eq': "df_grouped_region group_sum group_mean view' = Inr (map (?agg view') (?keys view'))"
      using assms(1) cols vc by (intro df_grouped_region_Inr) simp_all
    have ks: "?keys view' = ?keys view"
      by (rule group_keys_set) (simp add: mset_eq_setD[OF vc[THEN conjunct2]])
    have m: "mset (valid (map g (filter P (rows view')))) = mset (valid (map g (filter P (rows view))))"
      for g :: "row \<Rightarrow> cell" and P
      by (rule valid_mset_cong) (simp add: vc)
    have same: "?agg view' k = ?agg view k"
      if ind: "\<forall>name xs ys. mset xs = mset ys \<longrightarrow>
               group_sum name xs = group_sum name ys \<and> group_mean name xs = group_mean name ys"
      for k
    proof -
      have e: "valid (map g (filter P (rows view'))) = [] \<longleftrightarrow>
               valid (map g (filter P (rows view))) = []" for g :: "row \<Rightarrow> cell" and P
        using m[of g P] by (metis mset_zero_iff)
      from ind m have
        "group_sum name (valid (map g (filter P (rows view')))) =
         group_sum name (valid (map g (filter P (rows view))))"
        "group_mean name (valid (map g (filter P (rows view')))) =
         group_mean name (valid (map g (filter P (rows view))))"
        for name and g :: "row \<Rightarrow> cell" and P
        by blast+
      with e show ?thesis
        by (simp add: series_sum_def series_mean_def)
    qed
    show ?thesis
    proof (intro exI conjI impI)
      show "df_grouped_region group_sum group_mean view' = Inr (map (?agg view') (?keys view'))"
        by (rule eq')
      show "map REGION (map (?agg view') (?keys view')) = map REGION ?groups"
        by (simp add: ks o_def)
      assume "\<forall>name xs ys. mset xs = mset ys \<longrightarrow>
               group_sum name xs = group_sum name ys \<and> group_mean name xs = group_mean name ys"
      then have "?agg view' = ?agg view"
        by (intro ext same)
      then show "map (?agg view') (?keys view') = ?groups"
        by (simp only: ks)
    qed
  qed
  have x: "Total_Unidades g =
             (\<Sum>r\<leftarrow>filter (\<lambda>r. r ''REGION'' = REGION g) (rows view).
                key_num (r ''UNIDADES_VENDIDAS'')) \<and>
           Total_Ventas g =
             (\<Sum>r\<leftarrow>filter (\<lambda>r. r ''REGION'' = REGION g) (rows view).
                key_num (r ''VENTAS_TOTALES''))"
    if "\<forall>name xs. group_sum name xs = sum_list xs" "g \<in> set ?groups" for g
    using v[OF that(2)] that(1) by simp
  from v have v': "\<forall>g \<in> set ?groups.
        Total_Unidades g =
          group_sum ''UNIDADES_VENDIDAS''
            (map (\<lambda>r. key_num (r ''UNIDADES_VENDIDAS''))
               (filter (\<lambda>r. r ''REGION'' = REGION g) (rows view))) \<and>
        Total_Ventas g =
          group_sum ''VENTAS_TOTALES''
            (map (\<lambda>r. key_num (r ''VENTAS_TOTALES''))
               (filter (\<lambda>r. r ''REGION'' = REGION g) (rows view))) \<and>
        Promedio_Porcentaje g =
          Num (group_mean ''PORCENTAJE_DE_VENTAS''
                 (map (\<lambda>r. key_num (r ''PORCENTAJE_DE_VENTAS''))
                    (filter (\<lambda>r. r ''REGION'' = REGION g) (rows view))))"
    by (rule ballI)
  from p have p': "\<forall>view'. columns view' = columns view \<and> mset (rows view') = mset (rows view) \<longrightarrow>
        (\<exists>groups'. df_grouped_region group_sum group_mean view' = Inr groups' \<and>
           map REGION groups' = map REGION ?groups \<and>
           ((\<forall>name xs ys. mset xs = mset ys \<longrightarrow>
               group_sum name xs = group_sum name ys \<and> group_mean name xs = group_mean name ys) \<longrightarrow>
            groups' = ?groups))"
    by (intro allI impI)
  from x have x': "(\<forall>name xs. group_sum name xs = sum_list xs) \<longrightarrow>
        (\<forall>g \<in> set ?groups.
           Total_Unidades g =
             (\<Sum>r\<leftarrow>filter (\<lambda>r. r ''REGION'' = REGION g) (rows view).
                key_num (r ''UNIDADES_VENDIDAS'')) \<and>
           Total_Ventas g =
             (\<Sum>r\<leftarrow>filter (\<lambda>r. r ''REGION'' = REGION g) (rows view).
                key_num (r ''VENTAS_TOTALES'')))"
    by (intro impI ballI)
  show ?thesis
    by (rule exI[of _ ?groups]) (intro conjI eq d s v' p' x')
qed

theorem df_grouped_region_sums_witness:
  "''REGION'' \<in> set (columns example_df) \<and>
   numeric_column ''UNIDADES_VENDIDAS'' example_df \<and>
   numeric_column ''VENTAS_TOTALES'' example_df \<and>
   numeric_column ''PORCENTAJE_DE_VENTAS'' example_df \<and>
   df_grouped_region exact_sum exact_mean example_df =
     Inr [\<lparr>REGION = Str ''North'', Total_Unidades = 30, Total_Ventas = 300,
           Promedio_Porcentaje = Num (7 / 8)\<rparr>,
          \<lparr>REGION = Str ''South'', Total_Unidades = 5, Total_Ventas = 50,
           Promedio_Porcentaje = Num (1 / 10)\<rparr>] \<and>
   df_grouped_region exact_sum exact_mean (example_df\<lparr>rows := rev (rows example_df)\<rparr>) =
     df_grouped_region exact_sum exact_mean example_df"
proof -
  have h: "''REGION'' \<in> set (columns example_df)"
    "numeric_column ''UNIDADES_VENDIDAS'' example_df"
    "numeric_column ''VENTAS_TOTALES'' example_df"
    "numeric_column ''PORCENTAJE_DE_VENTAS'' example_df"
    by (simp_all add: example_df_def numeric_column_def seller_def)
  from df_grouped_region_sums[OF h, of exact_sum exact_mean] obtain groups where
    g: "df_grouped_region exact_sum exact_mean example_df = Inr groups" and
    p: "\<forall>view'. columns view' = columns example_df \<and> mset (rows view') = mset (rows example_df) \<longrightarrow>
        (\<exists>groups'. df_grouped_region exact_sum exact_mean view' = Inr groups' \<and>
           map REGION groups' = map REGION groups \<and>
           ((\<forall>name xs ys. mset xs = mset ys \<longrightarrow>
               exact_sum name xs = exact_sum name ys \<and> exact_mean name xs = exact_mean name ys) \<longrightarrow>
            groups' = groups))"
    by blast
  have ind: "\<forall>name xs ys. mset xs = mset ys \<longrightarrow>
               exact_sum name xs = exact_sum name ys \<and> exact_mean name xs = exact_mean name ys"
  proof (intro allI impI)
    fix name :: string and xs ys :: "real list"
    assume m: "mset xs = mset ys"
    then have "sum_list xs = sum_list ys"
      by (metis sum_mset_sum_list)
    moreover from m have "length xs = length ys"
      by (rule mset_eq_length)
    ultimately show "exact_sum name xs = exact_sum name ys \<and> exact_mean name xs = exact_mean name ys"
      by (simp only: exact_sum_def exact_mean_def)
  qed
  have "columns (example_df\<lparr>rows := rev (rows example_df)\<rparr>) = columns example_df \<and>
        mset (rows (example_df\<lparr>rows := rev (rows example_df)\<rparr>)) = mset (rows example_df)"
    by simp
  with p obtain groups' where
    g': "df_grouped_region exact_sum exact_mean (example_df\<lparr>rows := rev (rows example_df)\<rparr>) =
       Inr groups'" and
    i: "(\<forall>name xs ys. mset xs = mset ys \<longrightarrow>
               exact_sum name xs = exact_sum name ys \<and> exact_mean name xs = exact_mean name ys) \<longrightarrow>
            groups' = groups"
    by blast
  from i ind have "groups' = groups"
    by (rule mp)
  with g g' have r: "df_grouped_region exact_sum exact_mean (example_df\<lparr>rows := rev (rows example_df)\<rparr>) =
      df_grouped_region exact_sum exact_mean example_df"
    by simp
  have k: "group_keys (map (\<lambda>r. r ''REGION'') (rows example_df)) = [Str ''North'', Str ''South'']"
    by (simp add: group_keys_def example_df_def seller_def cell_key_def)
  have e: "df_grouped_region exact_sum exact_mean example_df =
     Inr [\<lparr>REGION = Str ''North'', Total_Unidades = 30, Total_Ventas = 300,
           Promedio_Porcentaje = Num (7 / 8)\<rparr>,
          \<lparr>REGION = Str ''South'', Total_Unidades = 5, Total_Ventas = 50,
           Promedio_Porcentaje = Num (1 / 10)\<rparr>]"
    unfolding df_grouped_region_Inr[OF h(1) h(2)[unfolded numeric_column_def, THEN conjunct1]
        h(3)[unfolded numeric_column_def, THEN conjunct1]
        h(4)[unfolded numeric_column_def, THEN conjunct1]] k
    by (simp add: example_df_def seller_def series_sum_def series_mean_def exact_sum_def exact_mean_def)
  from h r e show ?thesis by simp
qed

lemma sorts_stable_argsort: "sorts stable_argsort"
  by (simp add: sorts_def stable_argsort_def)

lemma sorts_reverse_argsort: "sorts reverse_argsort"
  by (simp add: sorts_def reverse_argsort_def)

lemma sort_values_desc_numeric:
  assumes "numeric_column name df"
  shows "sort_values_desc argsort name df =
     Inr (df\<lparr>rows := map (\<lambda>i. rows df ! i)
            (rev (map (\<lambda>j. rev [0..<length (rows df)] ! j)
               (argsort (map (\<lambda>i. key_num ((rows df ! i) name))
                  (rev [0..<length (rows df)])))))\<rparr>)"
proof -
  from assms have c: "name \<in> set (columns df)" and n: "\<forall>r \<in> set (rows df). is_Num (r name)"
    by (simp_all add: numeric_column_def list_all_iff)
  let ?keys = "map (\<lambda>r. r name) (rows df)"
  have num: "is_Num (?keys ! i)" if "i < length (rows df)" for i
    using that n by simp
  have f1: "filter (\<lambda>i. is_Num (?keys ! i)) [0..<length (rows df)] = [0..<length (rows df)]"
    using num by (simp add: filter_id_conv)
  have f2: "filter (\<lambda>i. \<not> is_Num (?keys ! i)) [0..<length (rows df)] = []"
    using num by (simp add: filter_empty_conv)
  have k: "map (\<lambda>i. key_num (?keys ! i)) (rev [0..<length (rows df)]) =
           map (\<lambda>i. key_num ((rows df ! i) name)) (rev [0..<length (rows df)])"
    by (rule map_cong) simp_all
  show ?thesis
    using c by (simp add: sort_values_desc_def bind_def getitem_def Let_def f1 f2 k)
qed

lemma sorted_rows_desc:
  fixes rs :: "row list" and name :: string and argsort :: "real list \<Rightarrow> nat list"
  assumes "sorts argsort"
  defines "order \<equiv> rev (map (\<lambda>j. rev [0..<length rs] ! j)
                     (argsort (map (\<lambda>i. key_num ((rs ! i) name)) (rev [0..<length rs]))))"
  shows "sorted_wrt (\<lambda>a b. key_num (b name) \<le> key_num (a name)) (map (\<lambda>i. rs ! i) order)"
    and "mset (map (\<lambda>i. rs ! i) order) = mset rs"
proof -
  let ?n = "length rs"
  let ?idx = "rev [0..<?n]"
  let ?ks = "map (\<lambda>i. key_num ((rs ! i) name)) ?idx"
  let ?ix = "argsort ?ks"
  from assms(1) have m: "mset ?ix = mset [0..<?n]"
    and s: "sorted (map (\<lambda>j. ?ks ! j) ?ix)"
    by (simp_all add: sorts_def)
  from m have "set ?ix = set [0..<?n]"
    by (rule mset_eq_setD)
  then have range: "j < ?n" if "j \<in> set ?ix" for j
    using that by simp
  have "map (\<lambda>j. ?ks ! j) ?ix = map (\<lambda>j. key_num ((rs ! (?idx ! j)) name)) ?ix"
    by (rule map_cong) (simp_all add: range)
  with s have "sorted (map (\<lambda>i. key_num ((rs ! i) name)) (map (\<lambda>j. ?idx ! j) ?ix))"
    by (simp add: o_def)
  then have "sorted_wrt (\<lambda>a b. key_num (a name) \<le> key_num (b name))
               (map (\<lambda>i. rs ! i) (map (\<lambda>j. ?idx ! j) ?ix))"
    by (simp add: sorted_wrt_map o_def)
  then show "sorted_wrt (\<lambda>a b. key_num (b name) \<le> key_num (a name)) (map (\<lambda>i. rs ! i) order)"
    by (simp add: order_def rev_map[symmetric] sorted_wrt_rev)
  have "mset (map (\<lambda>j. ?idx ! j) ?ix) = image_mset (\<lambda>j. ?idx ! j) (mset [0..<?n])"
    by (simp only: mset_map m)
  also have "\<dots> = mset (map (\<lambda>j. ?idx ! j) [0..<length ?idx])"
    by simp
  also have "\<dots> = mset ?idx"
    by (simp only: map_nth)
  finally have "mset (map (\<lambda>j. ?idx ! j) ?ix) = mset [0..<?n]"
    by simp
  then have "mset order = mset [0..<?n]"
    by (simp add: order_def)
  then have "mset (map (\<lambda>i. rs ! i) order) = mset (map (\<lambda>i. rs ! i) [0..<?n])"
    by (simp only: mset_map)
  then show "mset (map (\<lambda>i. rs ! i) order) = mset rs"
    by (simp only: map_nth)
qed

lemma reversed_keys:
  "map (\<lambda>i. key_num ((rs ! i) name)) (rev [0..<length rs]) = rev (map (\<lambda>r. key_num (r name)) rs)"
proof -
  have "map (\<lambda>i. key_num ((rs ! i) name)) [0..<length rs] =
        map (\<lambda>r. key_num (r name)) (map (\<lambda>i. rs ! i) [0..<length rs])"
    by (simp add: o_def)
  also have "\<dots> = map (\<lambda>r. key_num (r name)) rs"
    by (simp only: map_nth)
  finally show ?thesis
    by (simp only: rev_map[symmetric])
qed

text \<open>
  C5, as the specification states it, fails: the sort of line 142 is the default sort of
  the library, which is no stable sort. For a sort that returns equal keys in the reverse
  of their positions, and keeps what \<open>argsort\<close> promises, the four sellers of the tied
  view come back in the order 4, 3, 2, 1: the sellers with equal percentages have
  changed places.
\<close>

theorem top_n_stable_counterexample:
  "sorts reverse_argsort \<and> numeric_column ''PORCENTAJE_DE_VENTAS'' tied_view \<and>
   df_top_sellers reverse_argsort tied_view = Inr (tied_view\<lparr>rows := rev (rows tied_view)\<rparr>) \<and>
   \<not> tie_order_kept ''PORCENTAJE_DE_VENTAS'' (rows tied_view) (rev (rows tied_view))"
proof -
  have h: "numeric_column ''PORCENTAJE_DE_VENTAS'' tied_view"
    by (simp add: tied_view_def numeric_column_def)
  have a: "df_top_sellers reverse_argsort tied_view = Inr (tied_view\<lparr>rows := rev (rows tied_view)\<rparr>)"
    by (simp add: df_top_sellers_def top_n_def sort_values_desc_numeric[OF h] bind_def head_def)
       (simp add: tied_view_def reverse_argsort_def key_num_def)
  have b: "\<not> tie_order_kept ''PORCENTAJE_DE_VENTAS'' (rows tied_view) (rev (rows tied_view))"
    by (simp add: tie_order_kept_def tied_view_def fun_eq_iff)
  from sorts_reverse_argsort h a b show ?thesis
    by simp
qed

text \<open>
  C5, amended. On a view with a number in every row of \<open>PORCENTAJE_DE_VENTAS\<close>, for every
  sort that keeps what \<open>argsort\<close> promises, the top \<open>n\<close> are rows of the view in
  non-increasing order of that number, \<open>min n\<close> of the row count many, and no row left
  out has a larger number than a row returned. The order of rows with equal numbers is the
  one the sort of the library gives them: the result is fixed by the view and by what that
  sort returns for the percentages of the view, and need not keep the order of the input.
  Line 142 takes \<open>n = 10\<close>.
\<close>

theorem top_n_sorted:
  assumes "sorts argsort"
    and "numeric_column ''PORCENTAJE_DE_VENTAS'' view"
  shows "\<exists>top rest. top_n argsort n ''PORCENTAJE_DE_VENTAS'' view = Inr top \<and>
     df_top_sellers argsort view = top_n argsort 10 ''PORCENTAJE_DE_VENTAS'' view \<and>
     sorted_wrt (\<lambda>a b. key_num (b ''PORCENTAJE_DE_VENTAS'') \<le> key_num (a ''PORCENTAJE_DE_VENTAS''))
       (rows top) \<and>
     length (rows top) = min n (length (rows view)) \<and>
     mset (rows top) + mset rest = mset (rows view) \<and>
     (\<forall>a \<in> set (rows top). \<forall>b \<in> set rest.
        key_num (b ''PORCENTAJE_DE_VENTAS'') \<le> key_num (a ''PORCENTAJE_DE_VENTAS'')) \<and>
     (\<forall>argsort'.
        argsort' (rev (map (\<lambda>r. key_num (r ''PORCENTAJE_DE_VENTAS'')) (rows view))) =
        argsort (rev (map (\<lambda>r. key_num (r ''PORCENTAJE_DE_VENTAS'')) (rows view))) \<longrightarrow>
        top_n argsort' n ''PORCENTAJE_DE_VENTAS'' view = Inr top)"
proof -
  let ?P = "''PORCENTAJE_DE_VENTAS''"
  let ?ks = "rev (map (\<lambda>r. key_num (r ?P)) (rows view))"
  let ?order = "\<lambda>sort. rev (map (\<lambda>j. rev [0..<length (rows view)] ! j) (sort ?ks))"
  let ?s = "map (\<lambda>i. rows view ! i) (?order argsort)"
  let ?R = "\<lambda>a b :: row. key_num (b ?P) \<le> key_num (a ?P)"
  have t: "top_n sort n ?P view = Inr (view\<lparr>rows := take n (map (\<lambda>i. rows view ! i) (?order sort))\<rparr>)"
    for sort
    by (simp add: top_n_def sort_values_desc_numeric[OF assms(2)] bind_def head_def reversed_keys)
  from sorted_rows_desc[OF assms(1), where rs = "rows view" and name = ?P]
  have srt: "sorted_wrt ?R ?s" and ms: "mset ?s = mset (rows view)"
    by (simp_all only: reversed_keys)
  from srt have "sorted_wrt ?R (take n ?s @ drop n ?s)"
    by simp
  then have a: "sorted_wrt ?R (take n ?s)"
    and b: "\<forall>x \<in> set (take n ?s). \<forall>y \<in> set (drop n ?s). ?R x y"
    unfolding sorted_wrt_append by simp_all
  have "mset (take n ?s) + mset (drop n ?s) = mset ?s"
    by (simp flip: mset_append)
  then have m: "mset (take n ?s) + mset (drop n ?s) = mset (rows view)"
    by (simp only: ms)
  from ms have "length ?s = length (rows view)"
    by (rule mset_eq_length)
  then have l: "length (take n ?s) = min n (length (rows view))"
    by (simp add: min.commute)
  have d: "top_n sort n ?P view = Inr (view\<lparr>rows := take n ?s\<rparr>)"
    if "sort ?ks = argsort ?ks" for sort
    by (simp only: t that)
  show ?thesis
  proof (intro exI[of _ "view\<lparr>rows := take n ?s\<rparr>"] exI[of _ "drop n ?s"] conjI allI impI)
    show "top_n argsort n ?P view = Inr (view\<lparr>rows := take n ?s\<rparr>)"
      by (rule t)
    show "df_top_sellers argsort view = top_n argsort 10 ?P view"
      by (simp add: df_top_sellers_def)
    show "sorted_wrt ?R (rows (view\<lparr>rows := take n ?s\<rparr>))"
      using a by simp
    show "length (rows (view\<lparr>rows := take n ?s\<rparr>)) = min n (length (rows view))"
      using l by simp
    show "mset (rows (view\<lparr>rows := take n ?s\<rparr>)) + mset (drop n ?s) = mset (rows view)"
      using m by simp
    show "\<forall>a \<in> set (rows (view\<lparr>rows := take n ?s\<rparr>)). \<forall>b \<in> set (drop n ?s). ?R a b"
      using b by simp
    show "top_n sort n ?P view = Inr (view\<lparr>rows := take n ?s\<rparr>)"
      if "sort ?ks = argsort ?ks" for sort
      using that by (rule d)
  qed
qed

theorem top_n_sorted_witness:
  "sorts stable_argsort \<and> numeric_column ''PORCENTAJE_DE_VENTAS'' example_df \<and>
   top_n stable_argsort 2 ''PORCENTAJE_DE_VENTAS'' example_df =
     Inr (example_df\<lparr>rows := [rows example_df ! 1, rows example_df ! 0]\<rparr>) \<and>
   (\<exists>top. df_top_sellers stable_argsort example_df = Inr top \<and> length (rows top) = 3)"
proof -
  have h: "numeric_column ''PORCENTAJE_DE_VENTAS'' example_df"
    by (simp add: example_df_def numeric_column_def seller_def)
  from top_n_sorted[OF sorts_stable_argsort h, of 10] obtain top where
    "top_n stable_argsort 10 ''PORCENTAJE_DE_VENTAS'' example_df = Inr top"
    "df_top_sellers stable_argsort example_df = top_n stable_argsort 10 ''PORCENTAJE_DE_VENTAS'' example_df"
    "length (rows top) = min 10 (length (rows example_df))"
    by blast
  then have a: "\<exists>top. df_top_sellers stable_argsort example_df = Inr top \<and> length (rows top) = 3"
    by (simp add: example_df_def)
  have b: "top_n stable_argsort 2 ''PORCENTAJE_DE_VENTAS'' example_df =
     Inr (example_df\<lparr>rows := [rows example_df ! 1, rows example_df ! 0]\<rparr>)"
    by (simp add: top_n_def sort_values_desc_numeric[OF h] bind_def head_def)
       (simp add: example_df_def seller_def key_num_def stable_argsort_def)
  from sorts_stable_argsort h a b show ?thesis by simp
qed

end
